theory Spec2Isabelle
  imports Complex_Main "HOL-Library.Word"
begin

unbundle bit_operations_syntax

section \<open>The sample buffer\<close>

text \<open>
  \<^verbatim>\<open>Image.h\<close> (the class that \<^verbatim>\<open>Filter.cpp\<close> calls \<^verbatim>\<open>NewImage\<close>): an image
  has four extents and one sample per coordinate \<open>(x, y, t, c)\<close>. The class stores the samples in a shared vector behind three
  strides; every in-range coordinate has an offset of its own, so the embedding
  keeps the samples as a function of the coordinate. Samples are floats in the
  source. Where a filter only compares and copies them the embedding takes any
  linear order (no NaN); where it computes with them it takes the reals, so the
  rounding of the float operations is not part of the model.
\<close>

record 'a image =
  width :: nat
  height :: nat
  frames :: nat
  channels :: nat
  data :: "nat \<Rightarrow> nat \<Rightarrow> nat \<Rightarrow> nat \<Rightarrow> 'a"

text \<open>
  \<^verbatim>\<open>Image(int w, int h, int f, int c)\<close> allocates
  \<^verbatim>\<open>new vector<float>(w*h*f*c+7)\<close>, which value-initialises every sample to 0.
\<close>

definition new_image :: "nat \<Rightarrow> nat \<Rightarrow> nat \<Rightarrow> nat \<Rightarrow> ('a::zero) image" where
  "new_image w h f c = \<lparr>width = w, height = h, frames = f, channels = c,
     data = (\<lambda>x y t c. 0)\<rparr>"

text \<open>The assignment \<^verbatim>\<open>im(x, y, t, c) = v\<close>.\<close>

definition put :: "'a image \<Rightarrow> nat \<Rightarrow> nat \<Rightarrow> nat \<Rightarrow> nat \<Rightarrow> 'a \<Rightarrow> 'a image" where
  "put im x y t c v =
     im\<lparr>data := (\<lambda>x' y' t' c'. if x' = x \<and> y' = y \<and> t' = t \<and> c' = c then v
                                 else data im x' y' t' c')\<rparr>"

section \<open>HotPixelSuppression\<close>

text \<open>
  The body of the innermost loop of \<^verbatim>\<open>HotPixelSuppression::apply\<close>: the value
  stored at \<open>(x, y, t, c)\<close> of the output.
\<close>

definition hot_pixel :: "('a::linorder) image \<Rightarrow> nat \<Rightarrow> nat \<Rightarrow> nat \<Rightarrow> nat \<Rightarrow> 'a" where
  "hot_pixel im x y t c =
     (let n1 = data im (x - 1) y t c;
          n2 = data im (x + 1) y t c;
          n3 = data im x (y - 1) t c;
          n4 = data im x (y + 1) t c;
          here = data im x y t c;
          maxn = max (max n1 n2) (max n3 n4);
          minn = min (min n1 n2) (min n3 n4);
          here1 = (if here > maxn then maxn else here);
          here2 = (if here1 < minn then minn else here1)
      in here2)"

text \<open>
  \<^verbatim>\<open>HotPixelSuppression::apply\<close>. The four \<^verbatim>\<open>for\<close> loops run over fixed ranges
  and are folds over them; the loop state is the pair of the input buffer, which
  no statement of the loop writes, and the output buffer.
\<close>

definition hot_step ::
  "nat \<Rightarrow> nat \<Rightarrow> nat \<Rightarrow> nat \<Rightarrow> ('a::linorder) image \<times> 'a image \<Rightarrow> 'a image \<times> 'a image" where
  "hot_step t y x c s = (fst s, put (snd s) x y t c (hot_pixel (fst s) x y t c))"

definition HotPixelSuppression_apply ::
  "('a::{linorder,zero}) image \<Rightarrow> 'a image \<times> 'a image" where
  "HotPixelSuppression_apply im =
     fold (\<lambda>t. fold (\<lambda>y. fold (\<lambda>x. fold (\<lambda>c. hot_step t y x c)
               [0..<channels im])
             [1..<width im - 1])
           [1..<height im - 1])
         [0..<frames im]
       (im, new_image (width im) (height im) (frames im) (channels im))"

text \<open>A 3 by 3 image with one hot pixel in the middle.\<close>

definition hot_example :: "int image" where
  "hot_example = \<lparr>width = 3, height = 3, frames = 1, channels = 1,
     data = (\<lambda>x y t c. if x = 1 \<and> y = 1 then 50 else int x + 3 * int y + 1)\<rparr>"

section \<open>Failures\<close>

text \<open>
  \<^verbatim>\<open>assert(cond, msg)\<close> and \<^verbatim>\<open>panic(msg)\<close> abort the operation with the message.
  An access outside a vector or outside the extents of an image is undefined
  behaviour in a release build and a failed assertion under
  \<^verbatim>\<open>BOUNDS_CHECKING\<close>; the embedding makes it the result \<open>OutOfBounds\<close>.
  \<open>NonFinite\<close> marks the place where the source stores an infinity or a NaN
  (a sum multiplied by the double \<^verbatim>\<open>1.0/0\<close>) into a sample and goes on: the
  real-valued embedding has no such sample and stops there.
\<close>

datatype error = Panic string | OutOfBounds | NonFinite

fun foldE :: "('a \<Rightarrow> 's \<Rightarrow> error + 's) \<Rightarrow> 'a list \<Rightarrow> 's \<Rightarrow> error + 's" where
  "foldE f [] s = Inr s"
| "foldE f (a # as) s = (case f a s of Inl e \<Rightarrow> Inl e | Inr s' \<Rightarrow> foldE f as s')"

text \<open>The same loop for a body that may also fail to return (\<open>None\<close>).\<close>

fun foldP ::
  "('a \<Rightarrow> 's \<Rightarrow> (error + 's) option) \<Rightarrow> 'a list \<Rightarrow> 's \<Rightarrow> (error + 's) option" where
  "foldP f [] s = Some (Inr s)"
| "foldP f (a # as) s =
     (case f a s of None \<Rightarrow> None | Some (Inl e) \<Rightarrow> Some (Inl e)
      | Some (Inr s') \<Rightarrow> foldP f as s')"

text \<open>\<^verbatim>\<open>im(x, y, t, c)\<close> read and written with the check of \<^verbatim>\<open>BOUNDS_CHECKING\<close>.\<close>

definition get_at :: "'a image \<Rightarrow> nat \<Rightarrow> nat \<Rightarrow> nat \<Rightarrow> nat \<Rightarrow> error + 'a" where
  "get_at im x y t c =
     (if x < width im \<and> y < height im \<and> t < frames im \<and> c < channels im
      then Inr (data im x y t c) else Inl OutOfBounds)"

definition put_at :: "'a image \<Rightarrow> nat \<Rightarrow> nat \<Rightarrow> nat \<Rightarrow> nat \<Rightarrow> 'a \<Rightarrow> error + 'a image" where
  "put_at im x y t c v =
     (if x < width im \<and> y < height im \<and> t < frames im \<and> c < channels im
      then Inr (put im x y t c v) else Inl OutOfBounds)"

text \<open>The scanline \<open>im(0 .. width-1, y, t, c)\<close> as a list, and its write-back.\<close>

definition get_row :: "'a image \<Rightarrow> nat \<Rightarrow> nat \<Rightarrow> nat \<Rightarrow> 'a list" where
  "get_row im y t c = map (\<lambda>x. data im x y t c) [0..<width im]"

definition set_row :: "'a image \<Rightarrow> nat \<Rightarrow> nat \<Rightarrow> nat \<Rightarrow> 'a list \<Rightarrow> 'a image" where
  "set_row im y t c xs =
     im\<lparr>data := (\<lambda>x' y' t' c'. if y' = y \<and> t' = t \<and> c' = c \<and> x' < length xs then xs ! x'
                                 else data im x' y' t' c')\<rparr>"

section \<open>RectFilter\<close>

subsection \<open>The running-sum pass over one scanline\<close>

text \<open>
  The local variables of one iteration of the innermost loop of
  \<^verbatim>\<open>RectFilter::blurX\<close>, together with the scanline it reads and writes in
  place. \<open>mult\<close> is the double \<^verbatim>\<open>1.0/bufferEntries\<close>: \<open>None\<close> when
  \<open>bufferEntries\<close> is 0 and the quotient is an infinity.
\<close>

record box_state =
  line :: "real list"
  buffer :: "real list"
  runsum :: real
  bufferIndex :: nat
  bufferEntries :: int
  mult :: "real option"

definition inv_count :: "int \<Rightarrow> real option" where
  "inv_count n = (if n = 0 then None else Some (1 / real_of_int n))"

text \<open>\<^verbatim>\<open>im(x, y, t, c) = (float)(sum * mult)\<close>\<close>

definition emit :: "nat \<Rightarrow> box_state \<Rightarrow> error + box_state" where
  "emit x s =
     (case mult s of
        None \<Rightarrow> Inl NonFinite
      | Some m \<Rightarrow> Inr (s\<lparr>line := (line s)[x := runsum s * m]\<rparr>))"

text \<open>
  The two initialisation loops: \<open>buffer[0..radius]\<close> is zeroed, and
  \<open>buffer[j]\<close> for \<open>radius < j < width\<close> takes \<open>im(j - radius)\<close>, which is in
  range because \<^verbatim>\<open>blurX\<close> has returned already when
  \<^verbatim>\<open>im.width <= width/2\<close>.
\<close>

definition blurX_init :: "nat \<Rightarrow> nat \<Rightarrow> real list \<Rightarrow> box_state" where
  "blurX_init w radius row =
     (let s0 = \<lparr>line = row, buffer = replicate w 0, runsum = 0, bufferIndex = 0,
                bufferEntries = 0, mult = None\<rparr>;
          s1 = fold (\<lambda>j s. s\<lparr>buffer := (buffer s)[j := line s ! (j - radius)],
                              runsum := runsum s + line s ! (j - radius),
                              bufferEntries := bufferEntries s + 1\<rparr>)
                    [radius + 1..<w] s0
      in s1\<lparr>mult := inv_count (bufferEntries s1)\<rparr>)"

text \<open>The body of the loop of the "non boundary cases".\<close>

definition interior_step :: "nat \<Rightarrow> nat \<Rightarrow> nat \<Rightarrow> box_state \<Rightarrow> error + box_state" where
  "interior_step w radius x s =
     (case emit x s of
        Inl e \<Rightarrow> Inl e
      | Inr s1 \<Rightarrow>
          (let newVal = line s1 ! (x + radius + 1);
               s2 = s1\<lparr>runsum := runsum s1 + (newVal - buffer s1 ! bufferIndex s1),
                       buffer := (buffer s1)[bufferIndex s1 := newVal],
                       bufferIndex := (if bufferIndex s1 + 1 = w then 0
                                       else bufferIndex s1 + 1)\<rparr>
           in Inr (if bufferEntries s2 < int w
                   then s2\<lparr>bufferEntries := bufferEntries s2 + 1,
                           mult := inv_count (bufferEntries s2 + 1)\<rparr>
                   else s2)))"

text \<open>The body of the loop of the "boundary cases".\<close>

definition boundary_step :: "nat \<Rightarrow> nat \<Rightarrow> box_state \<Rightarrow> error + box_state" where
  "boundary_step w x s =
     (case emit x s of
        Inl e \<Rightarrow> Inl e
      | Inr s1 \<Rightarrow>
          Inr (s1\<lparr>runsum := runsum s1 - buffer s1 ! bufferIndex s1,
                  bufferIndex := (if bufferIndex s1 + 1 = w then 0 else bufferIndex s1 + 1),
                  bufferEntries := bufferEntries s1 - 1,
                  mult := inv_count (bufferEntries s1 - 1)\<rparr>))"

text \<open>One iteration of the loop over \<open>i\<close> on one scanline.\<close>

definition blurX_line :: "nat \<Rightarrow> nat \<Rightarrow> real list \<Rightarrow> error + real list" where
  "blurX_line w radius row =
     (case foldE (interior_step w radius) [0..<length row - radius - 1]
             (blurX_init w radius row) of
        Inl e \<Rightarrow> Inl e
      | Inr s1 \<Rightarrow>
          (case foldE (boundary_step w) [length row - radius - 1..<length row] s1 of
             Inl e \<Rightarrow> Inl e
           | Inr s2 \<Rightarrow> Inr (line s2)))"

text \<open>\<^verbatim>\<open>for (int i = 0; i < iterations; i++)\<close>\<close>

fun blurX_iter :: "nat \<Rightarrow> nat \<Rightarrow> nat \<Rightarrow> real list \<Rightarrow> error + real list" where
  "blurX_iter w radius 0 row = Inr row"
| "blurX_iter w radius (Suc n) row =
     (case blurX_line w radius row of
        Inl e \<Rightarrow> Inl e
      | Inr row' \<Rightarrow> blurX_iter w radius n row')"

subsection \<open>The three axes\<close>

definition RectFilter_blurXCompletely :: "real image \<Rightarrow> real image" where
  "RectFilter_blurXCompletely im =
     fold (\<lambda>c. fold (\<lambda>t. fold (\<lambda>y im'.
             set_row im' y t c
               (replicate (width im)
                  (sum_list (get_row im' y t c) / real (width im))))
           [0..<height im]) [0..<frames im]) [0..<channels im] im"

definition RectFilter_blurX :: "real image \<Rightarrow> int \<Rightarrow> int \<Rightarrow> error + real image" where
  "RectFilter_blurX im w iterations =
     (if w \<le> 1 then Inr im
      else if width im = 1 then Inr im
      else if int (width im) \<le> w div 2 then Inr (RectFilter_blurXCompletely im)
      else
        foldE (\<lambda>c. foldE (\<lambda>t. foldE (\<lambda>y im'.
            (case blurX_iter (nat w) (nat (w div 2)) (nat iterations) (get_row im' y t c) of
               Inl e \<Rightarrow> Inl e
             | Inr row \<Rightarrow> Inr (set_row im' y t c row)))
          [0..<height im]) [0..<frames im]) [0..<channels im] im)"

text \<open>
  \<^verbatim>\<open>for (int x = 0; x < im.width; x += chunk.height)\<close>: the first columns of the
  strips, for a strip width \<open>k\<close>.
\<close>

definition strips :: "nat \<Rightarrow> nat \<Rightarrow> nat list" where
  "strips w k = map (\<lambda>i. i * k) [0..<(w + k - 1) div k]"

definition strip_size :: "nat \<Rightarrow> nat \<Rightarrow> nat \<Rightarrow> nat" where
  "strip_size w k x = (if x + k \<ge> w then w - x else k)"

text \<open>
  One strip of \<^verbatim>\<open>RectFilter::blurY\<close>: read it transposed into the chunk, blur the
  chunk along x, read it back. The state is the image and the chunk, which is
  allocated once before the loops.
\<close>

definition blurY_read :: "real image \<Rightarrow> nat \<Rightarrow> nat \<Rightarrow> nat \<Rightarrow> nat \<Rightarrow> real image
    \<Rightarrow> error + real image" where
  "blurY_read im x t c sz chunk =
     foldE (\<lambda>y. foldE (\<lambda>j ch.
         (case get_at im (x + j) y t c of
            Inl e \<Rightarrow> Inl e
          | Inr v \<Rightarrow> put_at ch y j 0 0 v))
       [0..<sz]) [0..<height im] chunk"

definition blurY_write :: "real image \<Rightarrow> nat \<Rightarrow> nat \<Rightarrow> nat \<Rightarrow> nat \<Rightarrow> real image
    \<Rightarrow> error + real image" where
  "blurY_write chunk x t c sz im =
     foldE (\<lambda>y. foldE (\<lambda>j im'.
         (case get_at chunk y j 0 0 of
            Inl e \<Rightarrow> Inl e
          | Inr v \<Rightarrow> put_at im' (x + j) y t c v))
       [0..<sz]) [0..<height im] im"

definition blurY_strip :: "int \<Rightarrow> int \<Rightarrow> nat \<Rightarrow> nat \<Rightarrow> nat \<Rightarrow> real image \<times> real image
    \<Rightarrow> error + real image \<times> real image" where
  "blurY_strip w iterations c t x s =
     (let im = fst s; chunk = snd s;
          sz = strip_size (width im) (height chunk) x
      in case blurY_read im x t c sz chunk of
           Inl e \<Rightarrow> Inl e
         | Inr chunk1 \<Rightarrow>
             (case RectFilter_blurX chunk1 w iterations of
                Inl e \<Rightarrow> Inl e
              | Inr chunk2 \<Rightarrow>
                  (case blurY_write chunk2 x t c sz im of
                     Inl e \<Rightarrow> Inl e
                   | Inr im' \<Rightarrow> Inr (im', chunk2))))"

definition RectFilter_blurY :: "real image \<Rightarrow> int \<Rightarrow> int \<Rightarrow> error + real image" where
  "RectFilter_blurY im w iterations =
     (if w \<le> 1 then Inr im
      else if height im = 1 then Inr im
      else
        (case foldE (\<lambda>c. foldE (\<lambda>t. foldE (\<lambda>x. blurY_strip w iterations c t x)
                  (strips (width im) 8)) [0..<frames im]) [0..<channels im]
                (im, new_image (height im) 8 1 1) of
           Inl e \<Rightarrow> Inl e
         | Inr s \<Rightarrow> Inr (fst s)))"

text \<open>
  The loop of \<^verbatim>\<open>RectFilter::blurT\<close> that reads a strip into the chunk:
  \<^verbatim>\<open>for (int t = 0; y < im.frames; t++)\<close>. Its condition tests \<open>y\<close>, which the
  loop does not change, so the loop ends only by an access out of range; the
  function is partial, \<open>None\<close> standing for a loop that does not return.
\<close>

partial_function (option) blurT_read ::
  "real image \<Rightarrow> nat \<Rightarrow> nat \<Rightarrow> nat \<Rightarrow> nat \<Rightarrow> nat \<Rightarrow> real image
     \<Rightarrow> (error + real image) option" where
  "blurT_read im x y c sz t chunk =
     (if y < frames im
      then (case foldE (\<lambda>j ch.
                   (case get_at im (x + j) y t c of
                      Inl e \<Rightarrow> Inl e
                    | Inr v \<Rightarrow> put_at ch t j 0 0 v))
                 [0..<sz] chunk of
              Inl e \<Rightarrow> Some (Inl e)
            | Inr chunk' \<Rightarrow> blurT_read im x y c sz (t + 1) chunk')
      else Some (Inr chunk))"

definition blurT_write :: "real image \<Rightarrow> nat \<Rightarrow> nat \<Rightarrow> nat \<Rightarrow> nat \<Rightarrow> real image
    \<Rightarrow> error + real image" where
  "blurT_write chunk x y c sz im =
     foldE (\<lambda>t. foldE (\<lambda>j im'.
         (case get_at chunk t j 0 0 of
            Inl e \<Rightarrow> Inl e
          | Inr v \<Rightarrow> put_at im' (x + j) y t c v))
       [0..<sz]) [0..<frames im] im"

definition blurT_strip :: "int \<Rightarrow> int \<Rightarrow> nat \<Rightarrow> nat \<Rightarrow> nat \<Rightarrow> real image \<times> real image
    \<Rightarrow> (error + real image \<times> real image) option" where
  "blurT_strip w iterations c y x s =
     (let im = fst s; chunk = snd s;
          sz = strip_size (width im) (height chunk) x
      in case blurT_read im x y c sz 0 chunk of
           None \<Rightarrow> None
         | Some (Inl e) \<Rightarrow> Some (Inl e)
         | Some (Inr chunk1) \<Rightarrow>
             (case RectFilter_blurX chunk1 w iterations of
                Inl e \<Rightarrow> Some (Inl e)
              | Inr chunk2 \<Rightarrow>
                  (case blurT_write chunk2 x y c sz im of
                     Inl e \<Rightarrow> Some (Inl e)
                   | Inr im' \<Rightarrow> Some (Inr (im', chunk2)))))"

definition RectFilter_blurT :: "real image \<Rightarrow> int \<Rightarrow> int \<Rightarrow> (error + real image) option" where
  "RectFilter_blurT im w iterations =
     (if w \<le> 1 then Some (Inr im)
      else if frames im = 1 then Some (Inr im)
      else
        (case foldP (\<lambda>c. foldP (\<lambda>y. foldP (\<lambda>x. blurT_strip w iterations c y x)
                  (strips (width im) 8)) [0..<height im]) [0..<channels im]
                (im, new_image (frames im) 8 1 1) of
           None \<Rightarrow> None
         | Some (Inl e) \<Rightarrow> Some (Inl e)
         | Some (Inr s) \<Rightarrow> Some (Inr (fst s))))"

subsection \<open>RectFilter::apply\<close>

text \<open>
  The filter sizes and the iteration count are C \<^verbatim>\<open>int\<close>s. The first assertion
  is \<^verbatim>\<open>filterFrames & filterWidth & filterHeight & 1\<close>, a bitwise and, which only
  reads the lowest bit of each sz, so the width of the machine integer plays
  no part and the sizes are integers here.
\<close>

definition RectFilter_apply ::
  "real image \<Rightarrow> int \<Rightarrow> int \<Rightarrow> int \<Rightarrow> int \<Rightarrow> (error + real image) option" where
  "RectFilter_apply im filterWidth filterHeight filterFrames iterations =
     (if (((filterFrames AND filterWidth) AND filterHeight) AND 1) = 0
      then Some (Inl (Panic (''filter shape must be odd'' @ [CHR 0x0A])))
      else if \<not> iterations \<ge> 1
      then Some (Inl (Panic (''iterations must be at least one'' @ [CHR 0x0A])))
      else
        (case (if filterFrames \<noteq> 1 then RectFilter_blurT im filterFrames iterations
               else Some (Inr im)) of
           None \<Rightarrow> None
         | Some (Inl e) \<Rightarrow> Some (Inl e)
         | Some (Inr im1) \<Rightarrow>
             (case (if filterWidth \<noteq> 1 then RectFilter_blurX im1 filterWidth iterations
                    else Inr im1) of
                Inl e \<Rightarrow> Some (Inl e)
              | Inr im2 \<Rightarrow>
                  Some (if filterHeight \<noteq> 1 then RectFilter_blurY im2 filterHeight iterations
                        else Inr im2))))"

text \<open>
  Inputs for the running-sum filter: a constant scanline of three samples, and
  constant images of two frames, on which the frame axis can be blurred.
\<close>

definition box_example :: "real image" where
  "box_example = \<lparr>width = 3, height = 1, frames = 1, channels = 1,
     data = (\<lambda>x y t c. 1)\<rparr>"

definition frames_example :: "real image" where
  "frames_example = \<lparr>width = 1, height = 1, frames = 2, channels = 1,
     data = (\<lambda>x y t c. 1)\<rparr>"

definition tall_frames_example :: "real image" where
  "tall_frames_example = \<lparr>width = 1, height = 3, frames = 2, channels = 1,
     data = (\<lambda>x y t c. 1)\<rparr>"

section \<open>MinFilter and MaxFilter\<close>

text \<open>
  The sliding extremum primes and flushes its heap with \<^verbatim>\<open>INF\<close> and
  \<^verbatim>\<open>-INF\<close>, so its samples are the floats with the two infinities. The filter
  only compares and copies samples: no rounding is involved. NaN is left out.
\<close>

datatype fl = NegInf | Finite real | PosInf

fun fl_less :: "fl \<Rightarrow> fl \<Rightarrow> bool" where
  "fl_less NegInf NegInf = False"
| "fl_less NegInf b = True"
| "fl_less (Finite a) NegInf = False"
| "fl_less (Finite a) (Finite b) = (a < b)"
| "fl_less (Finite a) PosInf = True"
| "fl_less PosInf b = False"

text \<open>\<^verbatim>\<open>min(a, b)\<close> and \<^verbatim>\<open>max(a, b)\<close> of the standard library.\<close>

definition fl_min :: "fl \<Rightarrow> fl \<Rightarrow> fl" where
  "fl_min a b = (if fl_less b a then b else a)"

definition fl_max :: "fl \<Rightarrow> fl \<Rightarrow> fl" where
  "fl_max a b = (if fl_less a b then b else a)"

text \<open>
  \<^verbatim>\<open>heap[i]\<close> on the \<^verbatim>\<open>vector<float>\<close>, the index a \<^verbatim>\<open>size_t\<close> (64 bits).
\<close>

definition heap_get :: "'a list \<Rightarrow> 64 word \<Rightarrow> error + 'a" where
  "heap_get heap i = (if unat i < length heap then Inr (heap ! unat i) else Inl OutOfBounds)"

definition heap_set :: "'a list \<Rightarrow> 64 word \<Rightarrow> 'a \<Rightarrow> error + 'a list" where
  "heap_set heap i v =
     (if unat i < length heap then Inr (heap[unat i := v]) else Inl OutOfBounds)"

text \<open>
  The loop that updates the parents of a leaf:
  \<^verbatim>\<open>do { p--; p>>=1; heap[p] = min(heap[2*p+1], heap[2*p+2]); } while (p);\<close>
  \<open>p\<close> is a \<^verbatim>\<open>size_t\<close>: \<^verbatim>\<open>p--\<close> wraps around at 0.
\<close>

function update_parents :: "('a \<Rightarrow> 'a \<Rightarrow> 'a) \<Rightarrow> 'a list \<Rightarrow> 64 word \<Rightarrow> error + 'a list" where
  "update_parents pick heap p =
     (let p' = drop_bit 1 (p - 1) in
      case heap_get heap (2 * p' + 1) of
        Inl e \<Rightarrow> Inl e
      | Inr a \<Rightarrow>
          (case heap_get heap (2 * p' + 2) of
             Inl e \<Rightarrow> Inl e
           | Inr b \<Rightarrow>
               (case heap_set heap p' (pick a b) of
                  Inl e \<Rightarrow> Inl e
                | Inr heap' \<Rightarrow>
                    if p' \<noteq> 0 then update_parents pick heap' p' else Inr heap')))"
  by pat_completeness auto
termination
proof (relation "measure (\<lambda>(pick, heap, p). if p = 0 then 2 ^ 64 else unat p)")
  show "wf (measure (\<lambda>(pick, heap, p). if p = 0 then 2 ^ 64 else unat p))"
    by simp
next
  fix pick :: "'a \<Rightarrow> 'a \<Rightarrow> 'a" and heap :: "'a list" and p p' :: "64 word"
    and a b :: 'a and heap' :: "'a list"
  assume p': "p' = drop_bit 1 (p - 1)" and nz: "p' \<noteq> 0"
  have "unat p' < (if p = 0 then 2 ^ 64 else unat p)"
  proof (cases "p = 0")
    case True
    have "unat p' < 2 ^ LENGTH(64)"
      by (rule unsigned_less)
    with True show ?thesis by simp
  next
    case False
    then have "unat (p - 1) = unat p - 1"
      by (simp add: unat_minus_one)
    moreover have "unat p' = unat (p - 1) div 2"
      unfolding p' unat_drop_bit_eq by (simp add: drop_bit_eq_div)
    moreover from False have "0 < unat p"
      by (simp add: unat_gt_0)
    ultimately show ?thesis
      using False by simp
  qed
  with nz show "((pick, heap', p'), (pick, heap, p))
      \<in> measure (\<lambda>(pick, heap, p). if p = 0 then 2 ^ 64 else unat p)"
    by simp
qed

declare update_parents.simps [simp del]

text \<open>
  The body of the loop over \<open>x\<close> of one scanline. The state is the scanline,
  read and written in place, the heap and the position \<open>pos\<close> in the circular
  buffer of leaves. \<open>pick\<close> is \<^verbatim>\<open>min\<close> and \<open>sentinel\<close> is \<^verbatim>\<open>INF\<close> in
  \<^verbatim>\<open>MinFilter::apply\<close>; they are \<^verbatim>\<open>max\<close> and \<^verbatim>\<open>-INF\<close> in
  \<^verbatim>\<open>MaxFilter::apply\<close>, whose loops are the same text otherwise. The test
  \<^verbatim>\<open>x-radius > 0\<close> is on \<^verbatim>\<open>int\<close>s.
\<close>

definition extremum_step ::
  "('a \<Rightarrow> 'a \<Rightarrow> 'a) \<Rightarrow> 'a \<Rightarrow> nat \<Rightarrow> nat \<Rightarrow> 'a list \<times> 'a list \<times> nat
     \<Rightarrow> error + 'a list \<times> 'a list \<times> nat" where
  "extremum_step pick sentinel radius x s =
     (case s of (row, heap, pos) \<Rightarrow>
        (let val = (if x < length row then row ! x else sentinel) in
         case heap_set heap (word_of_nat pos) val of
           Inl e \<Rightarrow> Inl e
         | Inr heap1 \<Rightarrow>
             (case update_parents pick heap1 (word_of_nat pos) of
                Inl e \<Rightarrow> Inl e
              | Inr heap2 \<Rightarrow>
                  (case (if int x - int radius > 0
                         then (case heap_get heap2 0 of
                                 Inl e \<Rightarrow> Inl e
                               | Inr v \<Rightarrow> Inr (row[x - radius := v]))
                         else Inr row) of
                     Inl e \<Rightarrow> Inl e
                   | Inr row' \<Rightarrow>
                       Inr (row', heap2,
                            if pos + 1 = length heap2 then 2 * radius else pos + 1)))))"

text \<open>
  One scanline: the heap of \<open>4 * radius + 1\<close> entries is filled with the
  sentinel, \<open>pos\<close> starts at \<open>2 * radius\<close>, and \<open>x\<close> runs over
  \<open>0 .. width + radius - 1\<close>.
\<close>

definition extremum_line ::
  "('a \<Rightarrow> 'a \<Rightarrow> 'a) \<Rightarrow> 'a \<Rightarrow> nat \<Rightarrow> 'a list \<Rightarrow> error + 'a list" where
  "extremum_line pick sentinel radius row =
     (case foldE (extremum_step pick sentinel radius) [0..<length row + radius]
             (row, replicate (4 * radius + 1) sentinel, 2 * radius) of
        Inl e \<Rightarrow> Inl e
      | Inr s \<Rightarrow> Inr (fst s))"

text \<open>The column \<open>im(x, 0 .. height-1, t, c)\<close> as a list, and its write-back.\<close>

definition get_col :: "'a image \<Rightarrow> nat \<Rightarrow> nat \<Rightarrow> nat \<Rightarrow> 'a list" where
  "get_col im x t c = map (\<lambda>y. data im x y t c) [0..<height im]"

definition set_col :: "'a image \<Rightarrow> nat \<Rightarrow> nat \<Rightarrow> nat \<Rightarrow> 'a list \<Rightarrow> 'a image" where
  "set_col im x t c ys =
     im\<lparr>data := (\<lambda>x' y' t' c'. if x' = x \<and> t' = t \<and> c' = c \<and> y' < length ys then ys ! y'
                                 else data im x' y' t' c')\<rparr>"

text \<open>
  The two passes of \<^verbatim>\<open>MinFilter::apply\<close> and \<^verbatim>\<open>MaxFilter::apply\<close>: for each
  frame, every row and then every column. The radius is not negative
  (\<^verbatim>\<open>parse\<close> asserts \<^verbatim>\<open>radius > -1\<close>).
\<close>

definition extremum_apply ::
  "('a \<Rightarrow> 'a \<Rightarrow> 'a) \<Rightarrow> 'a \<Rightarrow> 'a image \<Rightarrow> nat \<Rightarrow> error + 'a image" where
  "extremum_apply pick sentinel im radius =
     foldE (\<lambda>t im1.
         (case foldE (\<lambda>y. foldE (\<lambda>c im'.
                   (case extremum_line pick sentinel radius (get_row im' y t c) of
                      Inl e \<Rightarrow> Inl e
                    | Inr row \<Rightarrow> Inr (set_row im' y t c row)))
                 [0..<channels im]) [0..<height im] im1 of
            Inl e \<Rightarrow> Inl e
          | Inr im2 \<Rightarrow>
              foldE (\<lambda>x. foldE (\<lambda>c im'.
                   (case extremum_line pick sentinel radius (get_col im' x t c) of
                      Inl e \<Rightarrow> Inl e
                    | Inr col \<Rightarrow> Inr (set_col im' x t c col)))
                 [0..<channels im]) [0..<width im] im2))
       [0..<frames im] im"

definition MinFilter_apply :: "fl image \<Rightarrow> nat \<Rightarrow> error + fl image" where
  "MinFilter_apply im radius = extremum_apply fl_min PosInf im radius"

definition MaxFilter_apply :: "fl image \<Rightarrow> nat \<Rightarrow> error + fl image" where
  "MaxFilter_apply im radius = extremum_apply fl_max NegInf im radius"

text \<open>A single pixel, and a scanline of four samples as a 4 by 1 image.\<close>

definition pixel_example :: "fl image" where
  "pixel_example = \<lparr>width = 1, height = 1, frames = 1, channels = 1,
     data = (\<lambda>x y t c. Finite 7)\<rparr>"

definition line_example :: "fl image" where
  "line_example = \<lparr>width = 4, height = 1, frames = 1, channels = 1,
     data = (\<lambda>x y t c. [Finite 5, Finite 1, Finite 7, Finite 3] ! x)\<rparr>"

section \<open>The sliding window of PercentileFilter\<close>

text \<open>
  \<^verbatim>\<open>struct SlidingNewImage\<close> of \<^verbatim>\<open>PercentileFilter::apply\<close>: a buffer of values, one
  per key, and two heaps over the same leaves. A heap node is the pair of the key
  of the value it points to and of the number of live leaves below it.
  \<open>maxHeap\<close> holds the low partition and keeps its maximum at the root,
  \<open>minHeap\<close> holds the high partition and keeps its minimum at the root.
  The values are floats that the window only compares and copies; they are reals
  here. Keys and counts are \<^verbatim>\<open>int\<close>s that are never negative.
\<close>

record window =
  buf :: "real list"
  minHeap :: "(nat \<times> nat) list"
  maxHeap :: "(nat \<times> nat) list"

text \<open>
  The constructor. \<^verbatim>\<open>while (heapSize < 2*buf.size()-1) heapSize += heapSize+1;\<close>
  (\<open>maxKey\<close> is at least 1: the filter passes \<open>d*d\<close> for \<open>d = 2*radius+1\<close>.)
\<close>

function heap_size_loop :: "nat \<Rightarrow> nat \<Rightarrow> nat" where
  "heap_size_loop heapSize n =
     (if heapSize < 2 * n - 1 then heap_size_loop (heapSize + (heapSize + 1)) n else heapSize)"
  by pat_completeness auto
termination
  by (relation "measure (\<lambda>(heapSize, n). 2 * n - 1 - heapSize)") auto

declare heap_size_loop.simps [simp del]

definition leaf_pointers :: "nat \<Rightarrow> (nat \<times> nat) list \<Rightarrow> (nat \<times> nat) list" where
  "leaf_pointers n h = fold (\<lambda>i h'. h'[i + n - 1 := (i, snd (h' ! (i + n - 1)))]) [0..<n] h"

definition SlidingNewImage :: "nat \<Rightarrow> window" where
  "SlidingNewImage maxKey =
     (let h = leaf_pointers maxKey (replicate (heap_size_loop 1 maxKey) (0, 0))
      in \<lparr>buf = replicate maxKey 0, minHeap = h, maxHeap = h\<rparr>)"

definition isEmpty :: "window \<Rightarrow> bool" where
  "isEmpty w = (snd (maxHeap w ! 0) + snd (minHeap w ! 0) = 0)"

definition pivot :: "window \<Rightarrow> real" where
  "pivot w = buf w ! fst (maxHeap w ! 0)"

text \<open>
  The node that one step of \<^verbatim>\<open>updateFrom\<close> computes from the two children \<open>a\<close>
  and \<open>b\<close>; \<open>better\<close> is \<open><\<close> in the loop over \<open>minHeap\<close> and \<open>>\<close> in the
  loop over \<open>maxHeap\<close>.
\<close>

definition parent_node ::
  "(real \<Rightarrow> real \<Rightarrow> bool) \<Rightarrow> real list \<Rightarrow> nat \<times> nat \<Rightarrow> nat \<times> nat \<Rightarrow> nat \<times> nat" where
  "parent_node better b a c =
     ((if snd a \<noteq> 0 \<and> snd c \<noteq> 0
       then (if better (b ! fst a) (b ! fst c) then fst a else fst c)
       else if snd c \<noteq> 0 then fst c
       else fst a),
      snd a + snd c)"

text \<open>
  One of the two loops of \<^verbatim>\<open>updateFrom\<close>:
  \<^verbatim>\<open>while (p) { p = (p-1)/2; ...; if (heap[p] == parent) break; heap[p] = parent; }\<close>
\<close>

function update_heap ::
  "(real \<Rightarrow> real \<Rightarrow> bool) \<Rightarrow> real list \<Rightarrow> (nat \<times> nat) list \<Rightarrow> nat \<Rightarrow> (nat \<times> nat) list" where
  "update_heap better b h p =
     (if p = 0 then h
      else
        (let p' = (p - 1) div 2;
             parent = parent_node better b (h ! (p' * 2 + 1)) (h ! (p' * 2 + 2))
         in if h ! p' = parent then h
            else update_heap better b (h[p' := parent]) p'))"
  by pat_completeness auto
termination
  by (relation "measure (\<lambda>(better, b, h, p). p)") auto

declare update_heap.simps [simp del]

definition updateFrom :: "window \<Rightarrow> nat \<Rightarrow> window" where
  "updateFrom w pos =
     w\<lparr>minHeap := update_heap (<) (buf w) (minHeap w) pos,
       maxHeap := update_heap (>) (buf w) (maxHeap w) pos\<rparr>"

text \<open>\<^verbatim>\<open>heap[i].second = v\<close>\<close>

definition set_second :: "(nat \<times> nat) list \<Rightarrow> nat \<Rightarrow> nat \<Rightarrow> (nat \<times> nat) list" where
  "set_second h i v = h[i := (fst (h ! i), v)]"

definition window_insert :: "window \<Rightarrow> nat \<Rightarrow> real \<Rightarrow> window" where
  "window_insert w key val =
     (let p = pivot w;
          w1 = w\<lparr>buf := (buf w)[key := val]\<rparr>;
          heapIdx = key + length (buf w1) - 1;
          w2 = (if isEmpty w1 \<or> val < p
                then w1\<lparr>maxHeap := set_second (maxHeap w1) heapIdx 1,
                        minHeap := set_second (minHeap w1) heapIdx 0\<rparr>
                else w1\<lparr>maxHeap := set_second (maxHeap w1) heapIdx 0,
                        minHeap := set_second (minHeap w1) heapIdx 1\<rparr>)
      in updateFrom w2 heapIdx)"

definition window_remove :: "window \<Rightarrow> nat \<Rightarrow> window" where
  "window_remove w key =
     (let heapIdx = key + length (buf w) - 1
      in updateFrom (w\<lparr>minHeap := set_second (minHeap w) heapIdx 0,
                       maxHeap := set_second (maxHeap w) heapIdx 0\<rparr>) heapIdx)"

text \<open>
  The bodies of the two loops of \<^verbatim>\<open>rebalance\<close>: the smallest value of
  \<open>minHeap\<close> goes over to \<open>maxHeap\<close>, or the largest value of \<open>maxHeap\<close> goes
  over to \<open>minHeap\<close>.
\<close>

definition move_to_maxHeap :: "window \<Rightarrow> window" where
  "move_to_maxHeap w =
     (let heapIdx = fst (minHeap w ! 0) + (length (buf w) - 1)
      in updateFrom (w\<lparr>minHeap := set_second (minHeap w) heapIdx 0,
                       maxHeap := set_second (maxHeap w) heapIdx 1\<rparr>) heapIdx)"

definition move_to_minHeap :: "window \<Rightarrow> window" where
  "move_to_minHeap w =
     (let heapIdx = fst (maxHeap w ! 0) + (length (buf w) - 1)
      in updateFrom (w\<lparr>minHeap := set_second (minHeap w) heapIdx 1,
                       maxHeap := set_second (maxHeap w) heapIdx 0\<rparr>) heapIdx)"

text \<open>
  The loops themselves run while the count at the root of \<open>minHeap\<close> differs
  from the desired one; nothing in their text bounds them, so they are partial
  functions and \<open>None\<close> is a loop that does not return.
\<close>

partial_function (option) shrink_minHeap :: "window \<Rightarrow> int \<Rightarrow> window option" where
  "shrink_minHeap w desired =
     (if int (snd (minHeap w ! 0)) > desired then shrink_minHeap (move_to_maxHeap w) desired
      else Some w)"

partial_function (option) grow_minHeap :: "window \<Rightarrow> int \<Rightarrow> window option" where
  "grow_minHeap w desired =
     (if int (snd (minHeap w ! 0)) < desired then grow_minHeap (move_to_minHeap w) desired
      else Some w)"

declare shrink_minHeap.simps [code]
declare grow_minHeap.simps [code]

text \<open>
  Modelled from the spec: \<^verbatim>\<open>clamp\<close> is declared in a header that is not among
  the sources; \<open>clamp a lo hi\<close> limits \<open>a\<close> to the range from \<open>lo\<close> to \<open>hi\<close>.
\<close>

definition clamp :: "int \<Rightarrow> int \<Rightarrow> int \<Rightarrow> int" where
  "clamp a lo hi = (if a < lo then lo else if a > hi then hi else a)"

text \<open>The conversion \<^verbatim>\<open>int(x)\<close> of a float truncates towards zero.\<close>

definition trunc_int :: "real \<Rightarrow> int" where
  "trunc_int x = (if x \<ge> 0 then \<lfloor>x\<rfloor> else \<lceil>x\<rceil>)"

text \<open>
  The arithmetic of \<^verbatim>\<open>total * (1.0f - percentile)\<close> is that of \<^verbatim>\<open>float\<close>: the
  difference is rounded to a \<^verbatim>\<open>float\<close>, \<^verbatim>\<open>total\<close> is converted to a \<^verbatim>\<open>float\<close>, and
  the product is rounded again, each time to the nearest value of the IEEE 754
  binary32 format, a tie going to the value with the even significand.

  A binary32 value of exponent \<open>e\<close>, from -126 to 127, is a multiple of
  \<open>2 ^ (e - 23)\<close> with a magnitude from \<open>2 ^ e\<close> up to \<open>2 ^ (e + 1)\<close>; below \<open>2 ^ -126\<close> the
  values stay \<open>2 ^ -149\<close> apart. \<open>float_exponent a\<close> finds the exponent for the
  magnitude \<open>a\<close> by halving or doubling, and \<open>float32 x\<close> is the real \<open>x\<close> rounded
  to binary32. The infinities and the values that are not numbers are outside
  the reals: where the source would round to an infinity, at a magnitude of
  \<open>2 ^ 128\<close>, \<open>float32\<close> goes on with the spacing of the exponent 127.
\<close>

definition pow2 :: "int \<Rightarrow> real" where
  "pow2 e = (if 0 \<le> e then 2 ^ nat e else 1 / 2 ^ nat (- e))"

fun exponent_up :: "nat \<Rightarrow> real \<Rightarrow> int" where
  "exponent_up 0 a = 0"
| "exponent_up (Suc n) a = (if 2 \<le> a then exponent_up n (a / 2) + 1 else 0)"

fun exponent_down :: "nat \<Rightarrow> real \<Rightarrow> int" where
  "exponent_down 0 a = 0"
| "exponent_down (Suc n) a = (if a < 1 then exponent_down n (2 * a) - 1 else 0)"

definition float_exponent :: "real \<Rightarrow> int" where
  "float_exponent a = (if 1 \<le> a then exponent_up 127 a else exponent_down 126 a)"

definition round_even :: "real \<Rightarrow> int" where
  "round_even x =
     (let f = \<lfloor>x\<rfloor>
      in if x - of_int f < 1 / 2 then f
         else if x - of_int f > 1 / 2 then f + 1
         else if even f then f else f + 1)"

definition float32 :: "real \<Rightarrow> real" where
  "float32 x =
     (let ulp = pow2 (float_exponent \<bar>x\<bar> - 23)
      in of_int (round_even (x / ulp)) * ulp)"

text \<open>
  The \<^verbatim>\<open>percentile\<close> of \<^verbatim>\<open>rebalance\<close> is the value of its \<^verbatim>\<open>float\<close> argument.
\<close>

definition desiredMinHeapSize :: "window \<Rightarrow> real \<Rightarrow> int" where
  "desiredMinHeapSize w percentile =
     (let total = int (snd (maxHeap w ! 0) + snd (minHeap w ! 0))
      in clamp (trunc_int (float32 (float32 (real_of_int total) * float32 (1 - percentile))))
           0 (total - 1))"

definition rebalance :: "window \<Rightarrow> real \<Rightarrow> window option" where
  "rebalance w percentile =
     (let desired = desiredMinHeapSize w percentile
      in case shrink_minHeap w desired of
           None \<Rightarrow> None
         | Some w1 \<Rightarrow> grow_minHeap w1 desired)"

subsection \<open>Sequences of operations and what the window holds\<close>

datatype window_op = Insert nat real | Remove nat

fun apply_op :: "window \<Rightarrow> window_op \<Rightarrow> window" where
  "apply_op w (Insert key val) = window_insert w key val"
| "apply_op w (Remove key) = window_remove w key"

text \<open>
  The keys that are live in a heap, read off its leaves, the sizes of the two
  partitions counted on the leaves, and the values the window holds.
\<close>

definition live_keys :: "window \<Rightarrow> (nat \<times> nat) list \<Rightarrow> nat list" where
  "live_keys w h =
     filter (\<lambda>i. snd (h ! (i + length (buf w) - 1)) \<noteq> 0) [0..<length (buf w)]"

definition live_values :: "window \<Rightarrow> real list" where
  "live_values w = map (\<lambda>i. buf w ! i) (live_keys w (maxHeap w) @ live_keys w (minHeap w))"

definition is_median :: "real list \<Rightarrow> real \<Rightarrow> bool" where
  "is_median xs m =
     (2 * length (filter (\<lambda>x. x \<le> m) xs) \<ge> length xs \<and>
      2 * length (filter (\<lambda>x. m \<le> x) xs) \<ge> length xs)"

definition low_size :: "window \<Rightarrow> nat" where
  "low_size w = length (live_keys w (maxHeap w))"

definition high_size :: "window \<Rightarrow> nat" where
  "high_size w = length (live_keys w (minHeap w))"

subsection \<open>The shape of a well-formed window\<close>

text \<open>
  Node \<open>q\<close> of a heap has the children \<open>2q+1\<close> and \<open>2q+2\<close>; with \<open>n\<close> keys the
  leaves are the nodes \<open>n-1 .. 2n-2\<close> and the nodes below \<open>n-1\<close> are inner nodes.
  \<open>anc q p\<close>: \<open>q\<close> is \<open>p\<close> or lies on the way from \<open>p\<close> up to the root.
\<close>

function anc :: "nat \<Rightarrow> nat \<Rightarrow> bool" where
  "anc q p = (if p = q then True else if p = 0 then False else anc q ((p - 1) div 2))"
  by pat_completeness auto
termination
  by (relation "measure (\<lambda>(q, p). p)") auto

declare anc.simps [simp del]

text \<open>
  A heap over \<open>n\<close> keys is in order when every leaf points to its own key and
  counts 0 or 1, every inner node counts the sum of its children, every node
  with a positive count points to a live leaf below it, and the count at the
  root is the number of live leaves.
\<close>

definition leaves_ok :: "nat \<Rightarrow> (nat \<times> nat) list \<Rightarrow> bool" where
  "leaves_ok n h = (\<forall>i<n. fst (h ! (i + n - 1)) = i \<and> snd (h ! (i + n - 1)) \<le> 1)"

definition sum_at :: "(nat \<times> nat) list \<Rightarrow> nat \<Rightarrow> bool" where
  "sum_at h q = (snd (h ! q) = snd (h ! (2 * q + 1)) + snd (h ! (2 * q + 2)))"

definition ptr_at :: "nat \<Rightarrow> (nat \<times> nat) list \<Rightarrow> nat \<Rightarrow> bool" where
  "ptr_at n h q =
     (snd (h ! q) \<noteq> 0 \<longrightarrow>
        fst (h ! q) < n \<and> snd (h ! (fst (h ! q) + n - 1)) = 1 \<and> anc q (fst (h ! q) + n - 1))"

definition live_count :: "nat \<Rightarrow> (nat \<times> nat) list \<Rightarrow> nat" where
  "live_count n h = length (filter (\<lambda>i. snd (h ! (i + n - 1)) \<noteq> 0) [0..<n])"

definition heap_ok :: "nat \<Rightarrow> (nat \<times> nat) list \<Rightarrow> bool" where
  "heap_ok n h =
     (2 * n - 1 \<le> length h \<and> leaves_ok n h \<and> (\<forall>q<n - 1. sum_at h q) \<and>
      (\<forall>q<2 * n - 1. ptr_at n h q) \<and> snd (h ! 0) = live_count n h)"

text \<open>
  A window is in order when both heaps are and no key is live in both.
\<close>

definition window_ok :: "window \<Rightarrow> bool" where
  "window_ok w =
     (let n = length (buf w) in
      1 \<le> n \<and> heap_ok n (minHeap w) \<and> heap_ok n (maxHeap w) \<and>
      (\<forall>i<n. snd (minHeap w ! (i + n - 1)) = 0 \<or> snd (maxHeap w ! (i + n - 1)) = 0))"



text \<open>
  A window of eight keys after a sequence of insertions and one removal that
  leaves the values 100, 50, 60, 55 and 75.
\<close>

definition stale_window :: window where
  "stale_window =
     fold (\<lambda>op w. apply_op w op)
       [Insert 2 5, Insert 0 100, Insert 1 50, Insert 4 60, Insert 5 55, Remove 2, Insert 3 75]
       (SlidingNewImage 8)"




section \<open>GaussianBlur and FastBlur\<close>

text \<open>
  \<^verbatim>\<open>GaussianBlur::apply\<close> builds one normalised kernel per axis and hands it to
  \<^verbatim>\<open>Convolve::apply\<close>, which is not among the sources and is a parameter here.
  The kernel for a standard deviation has \<^verbatim>\<open>(int)(sigma * 6 + 1) | 1\<close> taps (3
  when that is 1) with the values \<open>exp(-((i - radius)/sigma)\<^sup>2/2)\<close> divided by
  their sum. The axis of a kernel is in the extents of the filter image:
  \<^verbatim>\<open>filter(size, 1, 1, 1)\<close> lies along x, \<^verbatim>\<open>filter(1, size, 1, 1)\<close> along y and
  \<^verbatim>\<open>filter(1, 1, size, 1)\<close> along t.
\<close>

datatype axis = AxisX | AxisY | AxisT

definition gauss_size :: "real \<Rightarrow> int" where
  "gauss_size sigma =
     (let size0 = (trunc_int (sigma * 6 + 1)) OR 1 in if size0 = 1 then 3 else size0)"

definition gauss_kernel :: "real \<Rightarrow> real list" where
  "gauss_kernel sigma =
     (let sz = nat (gauss_size sigma);
          radius = sz div 2;
          vals = map (\<lambda>i. exp (- ((real_of_int (int i - int radius) / sigma)
                                    * (real_of_int (int i - int radius) / sigma)) / 2))
                     [0..<sz]
      in map (\<lambda>v. v / sum_list vals) vals)"

definition kernel_image :: "axis \<Rightarrow> real list \<Rightarrow> real image" where
  "kernel_image a k =
     (case a of
        AxisX \<Rightarrow> \<lparr>width = length k, height = 1, frames = 1, channels = 1,
                   data = (\<lambda>x y t c. if x < length k then k ! x else 0)\<rparr>
      | AxisY \<Rightarrow> \<lparr>width = 1, height = length k, frames = 1, channels = 1,
                   data = (\<lambda>x y t c. if y < length k then k ! y else 0)\<rparr>
      | AxisT \<Rightarrow> \<lparr>width = 1, height = 1, frames = length k, channels = 1,
                   data = (\<lambda>x y t c. if t < length k then k ! t else 0)\<rparr>)"

definition GaussianBlur_apply ::
  "(real image \<Rightarrow> real image \<Rightarrow> real image) \<Rightarrow> real image \<Rightarrow> real \<Rightarrow> real \<Rightarrow> real
     \<Rightarrow> real image" where
  "GaussianBlur_apply convolve im filterWidth filterHeight filterFrames =
     (let out1 = (if filterWidth \<noteq> 0
                  then convolve im (kernel_image AxisX (gauss_kernel filterWidth)) else im);
          out2 = (if filterHeight \<noteq> 0
                  then convolve out1 (kernel_image AxisY (gauss_kernel filterHeight)) else out1);
          out3 = (if filterFrames \<noteq> 0
                  then convolve out2 (kernel_image AxisT (gauss_kernel filterFrames)) else out2)
      in out3)"

subsection \<open>The recursive filter along one line\<close>

text \<open>\<^verbatim>\<open>FastBlur::calculateCoefficients\<close>; the square root is the real one.\<close>

definition calculateCoefficients :: "real \<Rightarrow> error + real \<times> real \<times> real \<times> real" where
  "calculateCoefficients sigma =
     (if \<not> sigma \<ge> 0.5
      then Inl (Panic (''To use IIR filtering, standard deviation of blur must be >= 0.5''
                       @ [CHR 0x0A]))
      else
        (let q = (if sigma < 2.5 then 3.97156 - 4.14554 * sqrt (1 - 0.26891 * sigma)
                  else 0.98711 * sigma - 0.96330);
             denom = 1.57825 + 2.44413 * q + 1.4281 * q * q + 0.422205 * q * q * q;
             c1 = (2.44413 * q + 2.85619 * q * q + 1.26661 * q * q * q) / denom;
             c2 = - (1.4281 * q * q + 1.26661 * q * q * q) / denom;
             c3 = (0.422205 * q * q * q) / denom;
             c0 = 1 - (c1 + c2 + c3)
         in Inr (c0, c1, c2, c3)))"

text \<open>
  The four loops that \<^verbatim>\<open>blurX\<close>, \<^verbatim>\<open>blurY\<close> and \<^verbatim>\<open>blurT\<close> run along one line
  of samples, with tap spacing \<open>ts\<close>: the first two groups of taps with reduced
  order, the forward pass, the last two groups, the backward pass. The loops
  stay inside a line of \<open>n\<close> samples exactly when \<open>3 * ts \<le> n\<close>; a shorter line is
  read outside its range. The two reciprocals are infinite when their
  denominator is 0.
\<close>

definition iir_line :: "real \<times> real \<times> real \<times> real \<Rightarrow> nat \<Rightarrow> real list \<Rightarrow> error + real list" where
  "iir_line cs ts xs =
     (case cs of (c0, c1, c2, c3) \<Rightarrow>
        if length xs < 3 * ts then Inl OutOfBounds
        else if c0 + c1 = 0 \<or> c0 + c1 + c2 = 0 then Inl NonFinite
        else
          (let invC01 = 1 / (c0 + c1);
               invC012 = 1 / (c0 + c1 + c2);
               n = length xs;
               l1 = fold (\<lambda>j l.
                      (let la = l[ts + j := (c0 * l ! (ts + j) + c1 * l ! j) * invC01]
                       in la[2 * ts + j :=
                            (c0 * la ! (2 * ts + j) + c1 * la ! (ts + j) + c2 * la ! j) * invC012]))
                    [0..<ts] xs;
               l2 = fold (\<lambda>x l. l[x := c0 * l ! x + c1 * l ! (x - ts) + c2 * l ! (x - 2 * ts)
                                       + c3 * l ! (x - 3 * ts)])
                    [3 * ts..<n] l1;
               x0 = n - 3 * ts;
               l3 = fold (\<lambda>j l.
                      (let la = l[x0 + ts + j :=
                                   (c0 * l ! (x0 + ts + j) + c1 * l ! (x0 + 2 * ts + j)) * invC01]
                       in la[x0 + j :=
                            (c0 * la ! (x0 + j) + c1 * la ! (x0 + ts + j)
                             + c2 * la ! (x0 + 2 * ts + j)) * invC012]))
                    [0..<ts] l2;
               l4 = fold (\<lambda>x l. l[x := c0 * l ! x + c1 * l ! (x + ts) + c2 * l ! (x + 2 * ts)
                                       + c3 * l ! (x + 3 * ts)])
                    (rev [0..<n - 3 * ts]) l3
           in Inr l4))"

text \<open>The line \<open>im(x, y, 0 .. frames-1, c)\<close> as a list, and its write-back.\<close>

definition get_tline :: "'a image \<Rightarrow> nat \<Rightarrow> nat \<Rightarrow> nat \<Rightarrow> 'a list" where
  "get_tline im x y c = map (\<lambda>t. data im x y t c) [0..<frames im]"

definition set_tline :: "'a image \<Rightarrow> nat \<Rightarrow> nat \<Rightarrow> nat \<Rightarrow> 'a list \<Rightarrow> 'a image" where
  "set_tline im x y c ts =
     im\<lparr>data := (\<lambda>x' y' t' c'. if x' = x \<and> y' = y \<and> c' = c \<and> t' < length ts then ts ! t'
                                 else data im x' y' t' c')\<rparr>"

text \<open>
  \<^verbatim>\<open>FastBlur::blurX\<close>, \<^verbatim>\<open>blurY\<close> and \<^verbatim>\<open>blurT\<close>. The last two run their lines
  side by side, for the cache; the lines do not touch each other, so each is
  filtered on its own here.
\<close>

definition FastBlur_blurX :: "real image \<Rightarrow> real \<Rightarrow> nat \<Rightarrow> error + real image" where
  "FastBlur_blurX im sigma ts =
     (if sigma = 0 then Inr im
      else case calculateCoefficients sigma of
        Inl e \<Rightarrow> Inl e
      | Inr cs \<Rightarrow>
          foldE (\<lambda>c. foldE (\<lambda>t. foldE (\<lambda>y im'.
              (case iir_line cs ts (get_row im' y t c) of
                 Inl e \<Rightarrow> Inl e
               | Inr l \<Rightarrow> Inr (set_row im' y t c l)))
            [0..<height im]) [0..<frames im]) [0..<channels im] im)"

definition FastBlur_blurY :: "real image \<Rightarrow> real \<Rightarrow> nat \<Rightarrow> error + real image" where
  "FastBlur_blurY im sigma ts =
     (if sigma = 0 then Inr im
      else case calculateCoefficients sigma of
        Inl e \<Rightarrow> Inl e
      | Inr cs \<Rightarrow>
          foldE (\<lambda>c. foldE (\<lambda>t. foldE (\<lambda>x im'.
              (case iir_line cs ts (get_col im' x t c) of
                 Inl e \<Rightarrow> Inl e
               | Inr l \<Rightarrow> Inr (set_col im' x t c l)))
            [0..<width im]) [0..<frames im]) [0..<channels im] im)"

definition FastBlur_blurT :: "real image \<Rightarrow> real \<Rightarrow> nat \<Rightarrow> error + real image" where
  "FastBlur_blurT im sigma ts =
     (if sigma = 0 then Inr im
      else case calculateCoefficients sigma of
        Inl e \<Rightarrow> Inl e
      | Inr cs \<Rightarrow>
          foldE (\<lambda>c. foldE (\<lambda>y. foldE (\<lambda>x im'.
              (case iir_line cs ts (get_tline im' x y c) of
                 Inl e \<Rightarrow> Inl e
               | Inr l \<Rightarrow> Inr (set_tline im' x y c l)))
            [0..<width im]) [0..<height im]) [0..<channels im] im)"

text \<open>
  One axis of the last part of \<^verbatim>\<open>FastBlur::apply\<close>: above 32 the blur is split
  into a sparse pass and a dense pass of standard deviation 32.
\<close>

definition iir_axis ::
  "(real image \<Rightarrow> real \<Rightarrow> nat \<Rightarrow> error + real image) \<Rightarrow> real image \<Rightarrow> real
     \<Rightarrow> error + real image" where
  "iir_axis blur im sigma =
     (if sigma > 32
      then (let remainingStdDev = sqrt (sigma * sigma - 32 * 32);
                tapSpacing = nat (trunc_int (remainingStdDev / 32 + 1))
            in case blur im (remainingStdDev / real tapSpacing) tapSpacing of
                 Inl e \<Rightarrow> Inl e
               | Inr im1 \<Rightarrow> blur im1 32 1)
      else if sigma > 0 then blur im sigma 1
      else Inr im)"

subsection \<open>The margin\<close>

text \<open>
  The padded buffer with the weight channel, and the division by the weight when
  the samples are copied back.
\<close>

definition add_margin :: "real image \<Rightarrow> nat \<Rightarrow> nat \<Rightarrow> nat \<Rightarrow> real image" where
  "add_margin im marginX marginY marginT =
     fold (\<lambda>t. fold (\<lambda>y. fold (\<lambda>x bigger.
         fold (\<lambda>c b. put b (x + marginX) (y + marginY) (t + marginT) c (data im x y t c))
           [0..<channels im]
           (put bigger (x + marginX) (y + marginY) (t + marginT) (channels im) 1))
       [0..<width im]) [0..<height im]) [0..<frames im]
       (new_image (width im + 2 * marginX) (height im + 2 * marginY)
          (frames im + 2 * marginT) (channels im + 1))"

definition remove_margin ::
  "real image \<Rightarrow> real image \<Rightarrow> nat \<Rightarrow> nat \<Rightarrow> nat \<Rightarrow> error + real image" where
  "remove_margin im bigger marginX marginY marginT =
     foldE (\<lambda>t. foldE (\<lambda>y. foldE (\<lambda>x im'.
         (if data bigger (x + marginX) (y + marginY) (t + marginT) (channels im) = 0
          then Inl NonFinite
          else
            (let w = 1 / data bigger (x + marginX) (y + marginY) (t + marginT) (channels im)
             in Inr (fold (\<lambda>c i. put i x y t c
                            (w * data bigger (x + marginX) (y + marginY) (t + marginT) c))
                       [0..<channels im] im'))))
       [0..<width im]) [0..<height im]) [0..<frames im] im"

subsection \<open>FastBlur::apply\<close>

text \<open>
  \<^verbatim>\<open>Paste::apply(im, blurry, 0, 0, 0)\<close> is not among the sources and is the
  parameter \<open>paste\<close>. The calls of \<^verbatim>\<open>FastBlur::apply\<close> on \<open>blurry\<close> leave out the
  last argument; its default value is in the header, which is not among the
  sources, and is the parameter \<open>defaultMargin\<close>. The function changes \<open>im\<close> in
  place; the embedding returns the new \<open>im\<close>.
\<close>

function FastBlur_apply ::
  "(real image \<Rightarrow> real image \<Rightarrow> real image) \<Rightarrow> (real image \<Rightarrow> real image \<Rightarrow> real image)
     \<Rightarrow> bool \<Rightarrow> real image \<Rightarrow> real \<Rightarrow> real \<Rightarrow> real \<Rightarrow> bool \<Rightarrow> error + real image" where
  "FastBlur_apply convolve paste defaultMargin im filterWidth0 filterHeight0 filterFrames0
       addMargin =
     (if \<not> (filterFrames0 \<ge> 0 \<and> filterWidth0 \<ge> 0 \<and> filterHeight0 \<ge> 0)
      then Inl (Panic (''Filter sizes must be non-negative'' @ [CHR 0x0A]))
      else
        (let filterWidth = (if width im = 1 then 0 else filterWidth0);
             filterHeight = (if height im = 1 then 0 else filterHeight0);
             filterFrames = (if frames im = 1 then 0 else filterFrames0)
         in
           if filterFrames > 0 \<and> (frames im < 16 \<or> filterFrames < 0.5)
           then (case FastBlur_apply convolve paste defaultMargin
                        (GaussianBlur_apply convolve im filterFrames 0 0)
                        filterWidth filterHeight 0 defaultMargin of
                   Inl e \<Rightarrow> Inl e
                 | Inr blurry \<Rightarrow> Inr (paste im blurry))
           else if filterWidth > 0 \<and> (width im < 16 \<or> filterWidth < 0.5)
           then (case FastBlur_apply convolve paste defaultMargin
                        (GaussianBlur_apply convolve im 0 filterWidth 0)
                        0 filterHeight filterFrames defaultMargin of
                   Inl e \<Rightarrow> Inl e
                 | Inr blurry \<Rightarrow> Inr (paste im blurry))
           else if filterHeight > 0 \<and> (height im < 16 \<or> filterHeight < 0.5)
           then (case FastBlur_apply convolve paste defaultMargin
                        (GaussianBlur_apply convolve im 0 0 filterHeight)
                        filterWidth 0 filterFrames defaultMargin of
                   Inl e \<Rightarrow> Inl e
                 | Inr blurry \<Rightarrow> Inr (paste im blurry))
           else if addMargin \<and>
                   ((filterFrames \<noteq> 0 \<and> real (frames im) / filterFrames < 8) \<or>
                    (filterWidth \<noteq> 0 \<and> real (width im) / filterWidth < 8) \<or>
                    (filterHeight \<noteq> 0 \<and> real (height im) / filterHeight < 8))
           then (case FastBlur_apply convolve paste defaultMargin
                        (add_margin im (nat (trunc_int filterWidth))
                           (nat (trunc_int filterHeight)) (nat (trunc_int filterFrames)))
                        filterFrames filterWidth filterHeight False of
                   Inl e \<Rightarrow> Inl e
                 | Inr bigger \<Rightarrow>
                     remove_margin im bigger (nat (trunc_int filterWidth))
                       (nat (trunc_int filterHeight)) (nat (trunc_int filterFrames)))
           else
             (case iir_axis FastBlur_blurX im filterWidth of
                Inl e \<Rightarrow> Inl e
              | Inr im1 \<Rightarrow>
                  (case iir_axis FastBlur_blurY im1 filterHeight of
                     Inl e \<Rightarrow> Inl e
                   | Inr im2 \<Rightarrow> iir_axis FastBlur_blurT im2 filterFrames))))"
  by pat_completeness auto
termination
proof (relation "measure (\<lambda>(convolve, paste, defaultMargin, im, fw, fh, ff, addMargin).
    2 * ((if fw > 0 then 1 else 0) + (if fh > 0 then 1 else 0) + (if ff > 0 then 1 else 0))
    + (if addMargin then 1 else 0))", goal_cases)
  case 1
  show ?case by simp
next
  case 2
  then show ?case by (auto split: if_splits)
next
  case 3
  then show ?case by (auto split: if_splits)
next
  case 4
  then show ?case by (auto split: if_splits)
next
  case 5
  then show ?case by (auto split: if_splits)
qed

declare FastBlur_apply.simps [simp del]

text \<open>
  Three images with one axis of two samples each, on which only that axis can be
  blurred.
\<close>

definition wide_example :: "real image" where
  "wide_example = \<lparr>width = 2, height = 1, frames = 1, channels = 1,
     data = (\<lambda>x y t c. real x)\<rparr>"

definition tall_example :: "real image" where
  "tall_example = \<lparr>width = 1, height = 2, frames = 1, channels = 1,
     data = (\<lambda>x y t c. real y)\<rparr>"

definition deep_example :: "real image" where
  "deep_example = \<lparr>width = 1, height = 1, frames = 2, channels = 1,
     data = (\<lambda>x y t c. real t)\<rparr>"

text \<open>A constant image of 16 by 16 samples.\<close>

definition flat_example :: "real image" where
  "flat_example = \<lparr>width = 16, height = 16, frames = 1, channels = 1,
     data = (\<lambda>x y t c. 1)\<rparr>"

section \<open>Properties of HotPixelSuppression\<close>

lemma put_simps [simp]:
  "width (put im x y t c v) = width im"
  "height (put im x y t c v) = height im"
  "frames (put im x y t c v) = frames im"
  "channels (put im x y t c v) = channels im"
  "data (put im x y t c v) x' y' t' c' =
     (if x' = x \<and> y' = y \<and> t' = t \<and> c' = c then v else data im x' y' t' c')"
  by (simp_all add: put_def)

lemma new_image_simps [simp]:
  "width (new_image w h f c) = w"
  "height (new_image w h f c) = h"
  "frames (new_image w h f c) = f"
  "channels (new_image w h f c) = c"
  "data (new_image w h f c) x y t c' = 0"
  by (simp_all add: new_image_def)

lemma hot_step_pair [simp]:
  "hot_step t y x c (im, out) = (im, put out x y t c (hot_pixel im x y t c))"
  by (simp add: hot_step_def)

text \<open>
  A loop whose body, for each element \<open>a\<close> of its range, stores \<open>V\<close> at the
  coordinates of the region \<open>R a\<close> and nothing else, stores \<open>V\<close> on the union of the
  regions.
\<close>

lemma fold_region:
  assumes step: "\<And>a out. a \<in> set as \<Longrightarrow> \<exists>out'. G a (im, out) = (im, out') \<and>
      width out' = width out \<and> height out' = height out \<and>
      frames out' = frames out \<and> channels out' = channels out \<and>
      (\<forall>x y t c. data out' x y t c = (if R a x y t c then V x y t c else data out x y t c))"
  shows "\<exists>out'. fold G as (im, out) = (im, out') \<and>
      width out' = width out \<and> height out' = height out \<and>
      frames out' = frames out \<and> channels out' = channels out \<and>
      (\<forall>x y t c. data out' x y t c =
         (if (\<exists>a\<in>set as. R a x y t c) then V x y t c else data out x y t c))"
  using step
proof (induction as arbitrary: out)
  case Nil
  then show ?case by simp
next
  case (Cons a as)
  from Cons.prems [of a out] obtain o1 where o1: "G a (im, out) = (im, o1)"
    "width o1 = width out" "height o1 = height out"
    "frames o1 = frames out" "channels o1 = channels out"
    "\<forall>x y t c. data o1 x y t c = (if R a x y t c then V x y t c else data out x y t c)"
    by auto
  have "\<exists>out'. fold G as (im, o1) = (im, out') \<and>
      width out' = width o1 \<and> height out' = height o1 \<and>
      frames out' = frames o1 \<and> channels out' = channels o1 \<and>
      (\<forall>x y t c. data out' x y t c =
         (if (\<exists>a\<in>set as. R a x y t c) then V x y t c else data o1 x y t c))"
    by (rule Cons.IH) (use Cons.prems in auto)
  then obtain o2 where o2: "fold G as (im, o1) = (im, o2)"
    "width o2 = width o1" "height o2 = height o1"
    "frames o2 = frames o1" "channels o2 = channels o1"
    "\<forall>x y t c. data o2 x y t c =
         (if (\<exists>a\<in>set as. R a x y t c) then V x y t c else data o1 x y t c)"
    by auto
  show ?case
    using o1 o2 by auto
qed

lemma hot_apply_region:
  "\<exists>out'. HotPixelSuppression_apply im = (im, out') \<and>
     width out' = width im \<and> height out' = height im \<and>
     frames out' = frames im \<and> channels out' = channels im \<and>
     (\<forall>x y t c. data out' x y t c =
        (if t < frames im \<and> 1 \<le> y \<and> y < height im - 1 \<and> 1 \<le> x \<and> x < width im - 1
            \<and> c < channels im
         then hot_pixel im x y t c else 0))"
proof -
  let ?V = "hot_pixel im"
  have lc: "\<exists>out'. hot_step t y x c (im, out) = (im, out') \<and>
      width out' = width out \<and> height out' = height out \<and>
      frames out' = frames out \<and> channels out' = channels out \<and>
      (\<forall>x' y' t' c'. data out' x' y' t' c' =
         (if x' = x \<and> y' = y \<and> t' = t \<and> c' = c then ?V x' y' t' c' else data out x' y' t' c'))"
    for t y x c out
    by auto
  have lx: "\<exists>out'. fold (hot_step t y x) [0..<channels im] (im, out) = (im, out') \<and>
      width out' = width out \<and> height out' = height out \<and>
      frames out' = frames out \<and> channels out' = channels out \<and>
      (\<forall>x' y' t' c'. data out' x' y' t' c' =
         (if (\<exists>c\<in>set [0..<channels im]. x' = x \<and> y' = y \<and> t' = t \<and> c' = c)
          then ?V x' y' t' c' else data out x' y' t' c'))"
    for t y x out
    by (rule fold_region) (rule lc)
  have ly: "\<exists>out'. fold (\<lambda>x. fold (hot_step t y x) [0..<channels im]) [1..<width im - 1] (im, out)
        = (im, out') \<and>
      width out' = width out \<and> height out' = height out \<and>
      frames out' = frames out \<and> channels out' = channels out \<and>
      (\<forall>x' y' t' c'. data out' x' y' t' c' =
         (if (\<exists>x\<in>set [1..<width im - 1]. \<exists>c\<in>set [0..<channels im].
                 x' = x \<and> y' = y \<and> t' = t \<and> c' = c)
          then ?V x' y' t' c' else data out x' y' t' c'))"
    for t y out
    by (rule fold_region) (rule lx)
  have lt: "\<exists>out'. fold (\<lambda>y. fold (\<lambda>x. fold (hot_step t y x) [0..<channels im])
          [1..<width im - 1]) [1..<height im - 1] (im, out) = (im, out') \<and>
      width out' = width out \<and> height out' = height out \<and>
      frames out' = frames out \<and> channels out' = channels out \<and>
      (\<forall>x' y' t' c'. data out' x' y' t' c' =
         (if (\<exists>y\<in>set [1..<height im - 1]. \<exists>x\<in>set [1..<width im - 1].
                 \<exists>c\<in>set [0..<channels im]. x' = x \<and> y' = y \<and> t' = t \<and> c' = c)
          then ?V x' y' t' c' else data out x' y' t' c'))"
    for t out
    by (rule fold_region) (rule ly)
  have l4: "\<exists>out'. fold (\<lambda>t. fold (\<lambda>y. fold (\<lambda>x. fold (hot_step t y x) [0..<channels im])
          [1..<width im - 1]) [1..<height im - 1]) [0..<frames im] (im, out) = (im, out') \<and>
      width out' = width out \<and> height out' = height out \<and>
      frames out' = frames out \<and> channels out' = channels out \<and>
      (\<forall>x' y' t' c'. data out' x' y' t' c' =
         (if (\<exists>t\<in>set [0..<frames im]. \<exists>y\<in>set [1..<height im - 1].
                 \<exists>x\<in>set [1..<width im - 1].
                 \<exists>c\<in>set [0..<channels im]. x' = x \<and> y' = y \<and> t' = t \<and> c' = c)
          then ?V x' y' t' c' else data out x' y' t' c'))"
    for out
    by (rule fold_region) (rule lt)
  from l4 [of "new_image (width im) (height im) (frames im) (channels im)"]
  obtain out' where o: "HotPixelSuppression_apply im = (im, out')"
      "width out' = width im" "height out' = height im"
      "frames out' = frames im" "channels out' = channels im"
      "\<forall>x' y' t' c'. data out' x' y' t' c' =
         (if (\<exists>t\<in>set [0..<frames im]. \<exists>y\<in>set [1..<height im - 1].
                 \<exists>x\<in>set [1..<width im - 1].
                 \<exists>c\<in>set [0..<channels im]. x' = x \<and> y' = y \<and> t' = t \<and> c' = c)
          then ?V x' y' t' c' else 0)"
    unfolding HotPixelSuppression_apply_def by auto
  have "data out' x y t c =
        (if t < frames im \<and> 1 \<le> y \<and> y < height im - 1 \<and> 1 \<le> x \<and> x < width im - 1
            \<and> c < channels im
         then hot_pixel im x y t c else 0)" for x y t c
    using o(6) by auto
  with o show ?thesis by blast
qed


lemma clamp_two_ifs:
  fixes v :: "'a::linorder"
  assumes "lo \<le> hi"
  shows "(if (if hi < v then hi else v) < lo then lo else (if hi < v then hi else v))
           = max lo (min hi v)"
  using assms by (auto simp: max_def min_def)

lemma hot_pixel_clamp:
  "hot_pixel im x y t c =
     max (Min {data im (x - 1) y t c, data im (x + 1) y t c,
               data im x (y - 1) t c, data im x (y + 1) t c})
         (min (Max {data im (x - 1) y t c, data im (x + 1) y t c,
                    data im x (y - 1) t c, data im x (y + 1) t c})
              (data im x y t c))"
proof -
  let ?n1 = "data im (x - 1) y t c" and ?n2 = "data im (x + 1) y t c"
  let ?n3 = "data im x (y - 1) t c" and ?n4 = "data im x (y + 1) t c"
  have hi: "Max {?n1, ?n2, ?n3, ?n4} = max (max ?n1 ?n2) (max ?n3 ?n4)"
    by (simp add: max.assoc)
  have lo: "Min {?n1, ?n2, ?n3, ?n4} = min (min ?n1 ?n2) (min ?n3 ?n4)"
    by (simp add: min.assoc)
  have le: "min (min ?n1 ?n2) (min ?n3 ?n4) \<le> max (max ?n1 ?n2) (max ?n3 ?n4)"
    by (meson min.cobounded1 max.cobounded1 order_trans)
  show ?thesis
    unfolding hi lo hot_pixel_def Let_def
    by (rule clamp_two_ifs [OF le])
qed

text \<open>
  C10. \<^verbatim>\<open>HotPixelSuppression::apply\<close> returns a new buffer of the input's extents.
  At an interior coordinate (\<open>0 < x < width - 1\<close>, \<open>0 < y < height - 1\<close>) its sample
  is the input's sample clamped between the minimum and the maximum of the four
  axis neighbours; on the one-pixel border it is the 0 of the fresh allocation.
  The input buffer comes back as it was.
\<close>

theorem hot_pixel_suppression_result:
  "\<exists>out. HotPixelSuppression_apply im = (im, out) \<and>
     width out = width im \<and> height out = height im \<and>
     frames out = frames im \<and> channels out = channels im \<and>
     (\<forall>x y t c. x < width im \<and> y < height im \<and> t < frames im \<and> c < channels im \<longrightarrow>
        data out x y t c =
          (if 0 < x \<and> x + 1 < width im \<and> 0 < y \<and> y + 1 < height im
           then max (Min {data im (x - 1) y t c, data im (x + 1) y t c,
                          data im x (y - 1) t c, data im x (y + 1) t c})
                  (min (Max {data im (x - 1) y t c, data im (x + 1) y t c,
                             data im x (y - 1) t c, data im x (y + 1) t c})
                       (data im x y t c))
           else 0))"
proof -
  from hot_apply_region [of im] obtain out where o:
    "HotPixelSuppression_apply im = (im, out)"
    "width out = width im" "height out = height im"
    "frames out = frames im" "channels out = channels im"
    "\<forall>x y t c. data out x y t c =
        (if t < frames im \<and> 1 \<le> y \<and> y < height im - 1 \<and> 1 \<le> x \<and> x < width im - 1
            \<and> c < channels im
         then hot_pixel im x y t c else 0)"
    by blast
  have "data out x y t c =
          (if 0 < x \<and> x + 1 < width im \<and> 0 < y \<and> y + 1 < height im
           then max (Min {data im (x - 1) y t c, data im (x + 1) y t c,
                          data im x (y - 1) t c, data im x (y + 1) t c})
                  (min (Max {data im (x - 1) y t c, data im (x + 1) y t c,
                             data im x (y - 1) t c, data im x (y + 1) t c})
                       (data im x y t c))
           else 0)"
    if "x < width im" "y < height im" "t < frames im" "c < channels im" for x y t c
  proof (cases "0 < x \<and> x + 1 < width im \<and> 0 < y \<and> y + 1 < height im")
    case True
    with that have "data out x y t c = hot_pixel im x y t c"
      using o(6) by auto
    with True show ?thesis
      by (simp only: hot_pixel_clamp if_True simp_thms)
  next
    case False
    with that have "data out x y t c = 0"
      using o(6) by auto
    with False show ?thesis
      by (simp only: if_False simp_thms)
  qed
  with o(1-5) show ?thesis by blast
qed

theorem hot_pixel_suppression_witness:
  "\<exists>out. HotPixelSuppression_apply hot_example = (hot_example, out) \<and>
     data out 1 1 0 0 = 8 \<and> data out 0 1 0 0 = 0 \<and> data out 2 2 0 0 = 0 \<and>
     data hot_example 1 1 0 0 = 50 \<and> data hot_example 0 1 0 0 = 4"
proof -
  from hot_pixel_suppression_result [of hot_example] obtain out where o:
    "HotPixelSuppression_apply hot_example = (hot_example, out)"
    "\<forall>x y t c. x < width hot_example \<and> y < height hot_example \<and>
        t < frames hot_example \<and> c < channels hot_example \<longrightarrow>
        data out x y t c =
          (if 0 < x \<and> x + 1 < width hot_example \<and> 0 < y \<and> y + 1 < height hot_example
           then max (Min {data hot_example (x - 1) y t c, data hot_example (x + 1) y t c,
                          data hot_example x (y - 1) t c, data hot_example x (y + 1) t c})
                  (min (Max {data hot_example (x - 1) y t c, data hot_example (x + 1) y t c,
                             data hot_example x (y - 1) t c, data hot_example x (y + 1) t c})
                       (data hot_example x y t c))
           else 0)"
    by blast
  have "data out 1 1 0 0 = 8"
    using o(2) [rule_format, of 1 1 0 0] by (simp add: hot_example_def)
  moreover have "data out 0 1 0 0 = 0"
    using o(2) [rule_format, of 0 1 0 0] by (simp add: hot_example_def)
  moreover have "data out 2 2 0 0 = 0"
    using o(2) [rule_format, of 2 2 0 0] by (simp add: hot_example_def)
  ultimately show ?thesis
    using o(1) by (auto simp: hot_example_def)
qed

section \<open>Properties of RectFilter\<close>

lemma box_line: "blurX_line 3 1 [1,1,1] = Inr [1,1,2]"
  by (simp add: blurX_line_def blurX_init_def interior_step_def boundary_step_def emit_def inv_count_def upt_rec)

lemma get_row_box: "get_row box_example 0 0 0 = [1, 1, 1]"
  by (simp add: get_row_def box_example_def upt_rec)

lemma box_ext:
  "width box_example = 3" "height box_example = 1"
  "frames box_example = 1" "channels box_example = 1"
  by (simp_all add: box_example_def)

lemma box_blurX_eq:
  "RectFilter_blurX box_example 3 1 = Inr (set_row box_example 0 0 0 [1, 1, 2])"
proof -
  have l: "blurX_line 3 (Suc 0) [1, 1, 1] = Inr [1, 1, 2]"
    using box_line by simp
  show ?thesis
    unfolding RectFilter_blurX_def
    by (simp add: box_ext get_row_box l)
qed

lemma box_blurX:
  "map_sum id (\<lambda>out. get_row out 0 0 0) (RectFilter_blurX box_example 3 1) = Inr [1, 1, 2]"
  by (simp add: box_blurX_eq get_row_def set_row_def box_ext upt_rec)

lemma box_apply_eq:
  "map_option (map_sum id (\<lambda>out. get_row out 0 0 0)) (RectFilter_apply box_example 3 1 1 1)
     = Some (Inr [1, 1, 2])"
  by (simp add: RectFilter_apply_def box_blurX_eq get_row_def set_row_def box_ext upt_rec)

text \<open>
  Counterexample to C9 as stated: the filter width \<open>-1\<close> is not positive, yet
  \<^verbatim>\<open>RectFilter::apply\<close> raises nothing and returns the image (the x axis is
  skipped by the \<^verbatim>\<open>width <= 1\<close> test of \<^verbatim>\<open>blurX\<close>).
\<close>

theorem rect_apply_negative_width_accepted:
  "RectFilter_apply box_example (- 1) 1 1 1 = Some (Inr box_example)"
  by (simp add: RectFilter_apply_def RectFilter_blurX_def)

lemma odd_check: "(((ff AND fw) AND fh) AND (1::int)) = 0 \<longleftrightarrow> even fw \<or> even fh \<or> even ff"
  by (auto simp: and_one_eq even_and_iff)

lemma blurs_skip:
  "w \<le> 1 \<Longrightarrow> RectFilter_blurT im w n = Some (Inr im)"
  "w \<le> 1 \<Longrightarrow> RectFilter_blurX im w n = Inr im"
  "w \<le> 1 \<Longrightarrow> RectFilter_blurY im w n = Inr im"
  by (simp_all add: RectFilter_blurT_def RectFilter_blurX_def RectFilter_blurY_def)

text \<open>
  C9, amended. \<^verbatim>\<open>RectFilter::apply\<close> fails at once with "filter shape must be odd"
  whenever one of the three sizes is even (0 included). A size that is odd
  passes that check also when it is negative, and then acts as the size 1: its
  axis is skipped. When the three sizes are odd and at most 1 and there is at
  least one iteration, the image is returned as it is, with no message.
\<close>

theorem rect_apply_checks_parity_only:
  "(even fw \<or> even fh \<or> even ff \<longrightarrow>
      RectFilter_apply im fw fh ff iterations
        = Some (Inl (Panic (''filter shape must be odd'' @ [CHR 0x0A])))) \<and>
   (odd fw \<and> odd fh \<and> odd ff \<longrightarrow>
      RectFilter_apply im fw fh ff iterations
        = RectFilter_apply im (max fw 1) (max fh 1) (max ff 1) iterations) \<and>
   (odd fw \<and> odd fh \<and> odd ff \<and> fw \<le> 1 \<and> fh \<le> 1 \<and> ff \<le> 1 \<and> 1 \<le> iterations \<longrightarrow>
      RectFilter_apply im fw fh ff iterations = Some (Inr im))"
proof (intro conjI impI)
  assume "even fw \<or> even fh \<or> even ff"
  then show "RectFilter_apply im fw fh ff iterations
        = Some (Inl (Panic (''filter shape must be odd'' @ [CHR 0x0A])))"
    by (simp add: RectFilter_apply_def odd_check)
next
  assume o: "odd fw \<and> odd fh \<and> odd ff"
  have m: "odd (max a 1)" if "odd a" for a :: int
    using that by (simp add: max_def)
  have t: "(if ff \<noteq> 1 then RectFilter_blurT im ff iterations else Some (Inr im))
      = (if max ff 1 \<noteq> 1 then RectFilter_blurT im (max ff 1) iterations else Some (Inr im))"
    by (cases "ff \<le> 1") (simp_all add: blurs_skip max_def)
  have x: "(if fw \<noteq> 1 then RectFilter_blurX i fw iterations else Inr i)
      = (if max fw 1 \<noteq> 1 then RectFilter_blurX i (max fw 1) iterations else Inr i)" for i
    by (cases "fw \<le> 1") (simp_all add: blurs_skip max_def)
  have y: "(if fh \<noteq> 1 then RectFilter_blurY i fh iterations else Inr i)
      = (if max fh 1 \<noteq> 1 then RectFilter_blurY i (max fh 1) iterations else Inr i)" for i
    by (cases "fh \<le> 1") (simp_all add: blurs_skip max_def)
  show "RectFilter_apply im fw fh ff iterations
        = RectFilter_apply im (max fw 1) (max fh 1) (max ff 1) iterations"
    unfolding RectFilter_apply_def
    using o m [of fw] m [of fh] m [of ff]
    by (simp only: t x y odd_check) simp
next
  assume "odd fw \<and> odd fh \<and> odd ff \<and> fw \<le> 1 \<and> fh \<le> 1 \<and> ff \<le> 1 \<and> 1 \<le> iterations"
  then show "RectFilter_apply im fw fh ff iterations = Some (Inr im)"
    by (simp add: RectFilter_apply_def odd_check blurs_skip)
qed

theorem rect_apply_checks_parity_only_witness:
  "even (2::int) \<and>
   RectFilter_apply box_example 2 1 1 1
     = Some (Inl (Panic (''filter shape must be odd'' @ [CHR 0x0A]))) \<and>
   odd (- 3 :: int) \<and> (- 3 :: int) \<le> 1 \<and>
   RectFilter_apply box_example (- 3) 1 (- 1) 2 = RectFilter_apply box_example 1 1 1 2 \<and>
   RectFilter_apply box_example (- 3) 1 (- 1) 2 = Some (Inr box_example)"
proof -
  have "RectFilter_apply box_example 2 1 1 1
     = Some (Inl (Panic (''filter shape must be odd'' @ [CHR 0x0A])))"
    using rect_apply_checks_parity_only [of 2 1 1 box_example 1] by simp
  moreover have "RectFilter_apply box_example (- 3) 1 (- 1) 2
      = RectFilter_apply box_example 1 1 1 2"
    using rect_apply_checks_parity_only
      [of "- 3" 1 "- 1" box_example 2, THEN conjunct2, THEN conjunct1]
    by simp
  moreover have "RectFilter_apply box_example (- 3) 1 (- 1) 2 = Some (Inr box_example)"
    using rect_apply_checks_parity_only
      [of "- 3" 1 "- 1" box_example 2, THEN conjunct2, THEN conjunct2]
    by simp
  ultimately show ?thesis by simp
qed

lemma foldE_only_oob:
  assumes "\<And>a s e. a \<in> set as \<Longrightarrow> f a s = Inl e \<Longrightarrow> e = OutOfBounds"
  shows "foldE f as s = Inl e \<Longrightarrow> e = OutOfBounds"
  using assms
proof (induction as arbitrary: s)
  case Nil then show ?case by simp
next
  case (Cons a as)
  show ?case
  proof (cases "f a s")
    case (Inl e')
    with Cons.prems(1) have "e = e'" by simp
    with Inl Cons.prems(2) [of a s e'] show ?thesis by simp
  next
    case (Inr s')
    with Cons.prems(1) have "foldE f as s' = Inl e" by simp
    then show ?thesis
      by (rule Cons.IH) (use Cons.prems(2) in auto)
  qed
qed

lemma copy_only_oob:
  "(case get_at im a b c d of Inl e \<Rightarrow> Inl e | Inr v \<Rightarrow> put_at ch t j 0 0 v) = Inl e
     \<Longrightarrow> e = OutOfBounds"
  by (auto simp: get_at_def put_at_def split: if_splits sum.splits)

lemma blurT_read_fails:
  assumes "y < frames im" "0 < sz"
  shows "blurT_read im x y c sz t chunk = Some (Inl OutOfBounds)"
  using assms
proof (induction "frames im - t" arbitrary: t chunk rule: less_induct)
  case less
  let ?body = "\<lambda>j ch. (case get_at im (x + j) y t c of Inl e \<Rightarrow> Inl e
                        | Inr v \<Rightarrow> put_at ch t j 0 0 v)"
  show ?case
  proof (cases "foldE ?body [0..<sz] chunk")
    case (Inl e)
    then have "e = OutOfBounds"
      by (rule foldE_only_oob [rotated]) (rule copy_only_oob)
    with Inl less.prems show ?thesis
      by (subst blurT_read.simps) simp
  next
    case (Inr chunk')
    have "t < frames im"
    proof (rule ccontr)
      assume "\<not> t < frames im"
      then have "get_at im (x + 0) y t c = Inl OutOfBounds"
        by (simp add: get_at_def)
      moreover from \<open>0 < sz\<close> have "[0..<sz] = 0 # [1..<sz]"
        by (simp add: upt_rec)
      ultimately have "foldE ?body [0..<sz] chunk = Inl OutOfBounds"
        by simp
      with Inr show False by simp
    qed
    then have "blurT_read im x y c sz (t + 1) chunk' = Some (Inl OutOfBounds)"
      by (intro less.hyps less.prems) simp
    with Inr less.prems show ?thesis
      by (subst blurT_read.simps) simp
  qed
qed

lemma blurT_read_frames_example:
  "blurT_read frames_example 0 0 0 1 0 (new_image 2 8 1 1) = Some (Inl OutOfBounds)"
  by (rule blurT_read_fails) (simp_all add: frames_example_def)

lemma blurT_read_tall_example:
  "blurT_read tall_frames_example 0 2 0 1 0 (new_image 2 8 1 1)
     = Some (Inr (new_image 2 8 1 1))"
  by (subst blurT_read.simps) (simp add: tall_frames_example_def)

lemma strips1: "strips (Suc 0) 8 = [0]"
  by (simp add: strips_def upt_rec)

lemma frames_ext:
  "width frames_example = 1" "height frames_example = 1"
  "frames frames_example = 2" "channels frames_example = 1"
  by (simp_all add: frames_example_def)

lemma blurT_frames_example: "RectFilter_blurT frames_example 3 1 = Some (Inl OutOfBounds)"
proof -
  have "blurT_strip 3 1 0 0 0 (frames_example, new_image 2 8 (Suc 0) (Suc 0)) = Some (Inl OutOfBounds)"
    using blurT_read_frames_example by (simp add: blurT_strip_def strip_size_def frames_ext new_image_def)
  then show ?thesis
    by (simp add: RectFilter_blurT_def frames_ext strips1)
qed

lemma apply_frames_example:
  "RectFilter_apply frames_example 1 1 3 1 = Some (Inl OutOfBounds)"
  by (simp add: RectFilter_apply_def blurT_frames_example)

text \<open>
  C5 fails on the code. A constant scanline of three samples 1, filtered once
  with the box width 3, ends as \<open>1, 1, 2\<close>: the last sample is divided by a
  count that has also been decremented for a zero of the initial buffer. The
  same holds through \<^verbatim>\<open>RectFilter::apply\<close> on the 3 by 1 image.
\<close>

theorem box_blur_constant_not_preserved:
  "blurX_line 3 1 [1, 1, 1] = Inr [1, 1, 2] \<and>
   map_option (map_sum id (\<lambda>out. get_row out 0 0 0)) (RectFilter_apply box_example 3 1 1 1)
     = Some (Inr [1, 1, 2])"
  using box_line box_apply_eq by simp

text \<open>
  C8 fails on the code. On an image of two frames the loop that reads the chunk
  in \<^verbatim>\<open>RectFilter::blurT\<close> runs past the last frame and ends in an access out of
  range when \<open>y < frames\<close>, and reads nothing at all when \<open>y \<ge> frames\<close>, so
  the chunk is blurred without having been loaded.
\<close>

theorem blurT_chunk_read_wrong_index:
  "blurT_read frames_example 0 0 0 1 0 (new_image 2 8 1 1) = Some (Inl OutOfBounds) \<and>
   blurT_read tall_frames_example 0 2 0 1 0 (new_image 2 8 1 1)
     = Some (Inr (new_image 2 8 1 1)) \<and>
   RectFilter_apply frames_example 1 1 3 1 = Some (Inl OutOfBounds)"
  using blurT_read_frames_example blurT_read_tall_example apply_frames_example by simp

section \<open>Properties of MinFilter and MaxFilter\<close>

lemma update_parents_zero:
  "length heap < 2 ^ 63 \<Longrightarrow> update_parents pick heap 0 = Inl OutOfBounds"
  by (subst update_parents.simps) (simp add: heap_get_def Let_def drop_bit_eq_div)

lemma radius0_line: "extremum_line pick s 0 (v # vs) = Inl OutOfBounds"
proof -
  have "[0..<length (v # vs) + 0] = 0 # [1..<length (v # vs)]"
    by (simp add: upt_rec)
  then show ?thesis
    by (simp add: extremum_line_def extremum_step_def heap_set_def update_parents_zero)
qed

lemma pixel_ext:
  "width pixel_example = 1" "height pixel_example = 1"
  "frames pixel_example = 1" "channels pixel_example = 1"
  by (simp_all add: pixel_example_def)

lemma pixel_row: "get_row pixel_example 0 0 0 = [Finite 7]"
  by (simp add: get_row_def pixel_example_def)

lemma min_pixel_radius0: "MinFilter_apply pixel_example 0 = Inl OutOfBounds"
  by (simp add: MinFilter_apply_def extremum_apply_def pixel_ext pixel_row radius0_line)

lemma min_line4: "extremum_line fl_min PosInf 1 [Finite 5, Finite 1, Finite 7, Finite 3] = Inr [Finite 5, Finite 1, Finite 1, Finite 3]"
  by code_simp

lemma max_line4: "extremum_line fl_max NegInf 1 [Finite 1, Finite 5, Finite 7, Finite 3] = Inr [Finite 1, Finite 7, Finite 7, Finite 7]"
  by code_simp

lemma line_ext:
  "width line_example = 4" "height line_example = 1"
  "frames line_example = 1" "channels line_example = 1"
  by (simp_all add: line_example_def)

lemma line_row: "get_row line_example 0 0 0 = [Finite 5, Finite 1, Finite 7, Finite 3]"
  by (simp add: get_row_def line_example_def upt_rec)

lemma min_line_apply:
  "map_sum id (\<lambda>out. get_row out 0 0 0) (MinFilter_apply line_example 1)
     = Inr [Finite 5, Finite 1, Finite 1, Finite 3]"
  by code_simp

text \<open>
  C1 fails on the code at index 0. With radius 1 the scanline \<open>5, 1, 7, 3\<close>
  leaves the minimum filter as \<open>5, 1, 1, 3\<close>: the samples from index 1 on are
  the minima of their clamped windows, the sample at index 0 is the input 5
  where the window \<open>{5, 1}\<close> has minimum 1. The write is guarded by
  \<^verbatim>\<open>x-radius > 0\<close>, so index 0 is never written. The maximum filter leaves
  \<open>1, 5, 7, 3\<close> as \<open>1, 7, 7, 7\<close> in the same way.
\<close>

theorem extremum_index0_not_written:
  "extremum_line fl_min PosInf 1 [Finite 5, Finite 1, Finite 7, Finite 3]
     = Inr [Finite 5, Finite 1, Finite 1, Finite 3] \<and>
   extremum_line fl_max NegInf 1 [Finite 1, Finite 5, Finite 7, Finite 3]
     = Inr [Finite 1, Finite 7, Finite 7, Finite 7] \<and>
   map_sum id (\<lambda>out. get_row out 0 0 0) (MinFilter_apply line_example 1)
     = Inr [Finite 5, Finite 1, Finite 1, Finite 3]"
  using min_line4 max_line4 min_line_apply by simp

text \<open>
  C7 fails on the code. With radius 0 the heap has one entry and \<open>pos\<close> is 0;
  the loop over the parents starts with \<^verbatim>\<open>p--\<close> on the \<^verbatim>\<open>size_t\<close> 0, which
  wraps, and reads \<^verbatim>\<open>heap[2*p+1]\<close> far outside the vector. This happens at the
  first sample of every scanline that is not empty.
\<close>

theorem min_filter_radius0_out_of_bounds:
  "MinFilter_apply pixel_example 0 = Inl OutOfBounds \<and>
   (\<forall>v vs. extremum_line fl_min PosInf 0 (v # vs) = Inl OutOfBounds)"
  by (simp add: min_pixel_radius0 radius0_line)

section \<open>Properties of the sliding window\<close>

subsection \<open>Ancestors\<close>

lemma anc_refl [simp]: "anc p p"
  by (subst anc.simps) simp

lemma anc_zero_iff [simp]: "anc q 0 \<longleftrightarrow> q = 0"
  by (subst anc.simps) auto






subsection \<open>One loop of updateFrom\<close>

lemma parent_node_snd [simp]: "snd (parent_node better b a c) = snd a + snd c"
  by (simp add: parent_node_def)




subsection \<open>Changing the count of one leaf\<close>


lemma length_set_second [simp]: "length (set_second h l v) = length h"
  by (simp add: set_second_def)


lemma live_count_cong:
  "(\<And>i. i < n \<Longrightarrow> snd (h' ! (i + n - 1)) = snd (h ! (i + n - 1)))
     \<Longrightarrow> live_count n h' = live_count n h"
  unfolding live_count_def by (rule arg_cong [where f = length], rule filter_cong) simp_all




subsection \<open>The window after one leaf has changed in both heaps\<close>








lemma sizes_are_root_counts:
  assumes "window_ok w"
  shows "low_size w = snd (maxHeap w ! 0)" "high_size w = snd (minHeap w ! 0)"
  using assms
  by (simp_all add: window_ok_def Let_def heap_ok_def low_size_def high_size_def
      live_keys_def live_count_def)



subsection \<open>Every window that the operations build is in order\<close>










text \<open>
  Some values of \<open>float32\<close>: \<^verbatim>\<open>0.1f\<close>, \<^verbatim>\<open>0.3f\<close> and the float next to a third, ties
  above \<open>2 ^ 24\<close> and above 1, and the product of
  \<^verbatim>\<open>rebalance\<close> for ten values and \<^verbatim>\<open>0.3f\<close>, which is below 7 in the reals and
  rounds to 7.
\<close>

lemma float32_examples:
  "float32 (1 / 10) = 13421773 / 2 ^ 27"
  "float32 (3 / 10) = 10066330 / 2 ^ 25"
  "float32 (1 / 3) = 11184811 / 2 ^ 25"
  "float32 (- (1 / 3)) = - (11184811 / 2 ^ 25)"
  "float32 16777217 = 16777216"
  "float32 16777219 = 16777220"
  "float32 (1 + 1 / 2 ^ 24) = 1"
  "float32 (1 + 3 / 2 ^ 24) = 1 + 4 / 2 ^ 24"
  by code_simp+

lemma float_product_rounds_to_7:
  "1 - 10066330 / 2 ^ 25 = (11744051 / 2 ^ 24 :: real)"
  "float32 (1 - 10066330 / 2 ^ 25) = 11744051 / 2 ^ 24"
  "trunc_int (10 * (11744051 / 2 ^ 24)) = 6"
  "float32 (float32 10 * float32 (1 - 10066330 / 2 ^ 25)) = 7"
  by code_simp+

text \<open>
  Without a live value the desired size is \<open>clamp 0 0 (-1) = -1\<close>, which no count
  is below, and the first loop of \<^verbatim>\<open>rebalance\<close> does not end.
\<close>

lemma float32_zero: "float32 0 = 0"
  by (simp add: float32_def round_even_def)

lemma shrink_minHeap_returns_nonneg:
  assumes "shrink_minHeap w desired = Some w'"
  shows "0 \<le> desired"
proof (rule shrink_minHeap.raw_induct [where P = "\<lambda>w desired w'. 0 \<le> desired", OF _ assms])
  fix shrink w desired w'
  assume ih: "\<And>w desired w'. shrink w desired = Some w' \<Longrightarrow> 0 \<le> desired"
    and step: "(if desired < int (snd (minHeap w ! 0))
                then shrink (move_to_maxHeap w) desired else Some w) = Some w'"
  show "0 \<le> desired"
  proof (cases "desired < int (snd (minHeap w ! 0))")
    case True
    with step have "shrink (move_to_maxHeap w) desired = Some w'" by simp
    then show ?thesis by (rule ih)
  next
    case False
    then show ?thesis by simp
  qed
qed

lemma rebalance_without_live_values:
  assumes "window_ok w" and "low_size w + high_size w = 0"
  shows "rebalance w p = None"
proof -
  note s = sizes_are_root_counts [OF assms(1)]
  from assms(2) have "desiredMinHeapSize w p = - 1"
    by (simp add: desiredMinHeapSize_def Let_def s float32_zero trunc_int_def clamp_def)
  moreover have "shrink_minHeap w (- 1) = None"
    using shrink_minHeap_returns_nonneg [of w "- 1"] by fastforce
  ultimately show ?thesis
    by (simp add: rebalance_def)
qed




text \<open>
  C2 fails on the code. In a window of eight keys: insert 5 (the window is
  empty, so it goes to the low partition), insert 100, 50, 60 and 55 (not below
  the pivot 5, so they go to the high partition), remove the 5, insert 75. The
  low partition is empty at that insertion, and the root of \<open>maxHeap\<close> falls
  back to key 0, whose value 100 belongs to the high partition; 75 is below that
  stale pivot and goes to the low partition although 50, 55 and 60 are smaller.
  \<^verbatim>\<open>rebalance(0.5)\<close> then only moves 50 and 55 over, and \<^verbatim>\<open>pivot()\<close> is 75: two of
  the five live values are at least 75. The median is 60.
\<close>

theorem stale_pivot_not_median:
  "\<exists>w'. rebalance stale_window (1 / 2) = Some w' \<and> pivot w' = 75 \<and>
     live_values w' = [50, 75, 55, 100, 60] \<and> \<not> is_median (live_values w') (pivot w') \<and>
     is_median (live_values w') 60"
proof -
  have "case rebalance stale_window (1 / 2) of None \<Rightarrow> False
        | Some w' \<Rightarrow> pivot w' = 75 \<and> live_values w' = [50, 75, 55, 100, 60] \<and>
            \<not> is_median (live_values w') (pivot w') \<and> is_median (live_values w') 60"
    by code_simp
  then show ?thesis
    by (auto split: option.splits)
qed

section \<open>Properties of FastBlur\<close>

lemma gauss_size_1: "gauss_size 1 = 7"
  by (simp add: gauss_size_def trunc_int_def)

lemma len_kernel_1: "length (gauss_kernel 1) = 7"
  by (simp add: gauss_kernel_def gauss_size_1 Let_def)

lemma FastBlur_nothing_to_do:
  "FastBlur_apply convolve paste dm im 0 0 0 am = Inr im"
  by (subst FastBlur_apply.simps) (simp add: iir_axis_def)

lemma deep_fallback:
  "FastBlur_apply convolve paste dm deep_example 0 0 1 am
     = Inr (paste deep_example (convolve deep_example (kernel_image AxisX (gauss_kernel 1))))"
  by (subst FastBlur_apply.simps)
    (simp add: deep_example_def GaussianBlur_apply_def FastBlur_nothing_to_do)

lemma wide_fallback:
  "FastBlur_apply convolve paste dm wide_example 1 0 0 am
     = Inr (paste wide_example (convolve wide_example (kernel_image AxisY (gauss_kernel 1))))"
  by (subst FastBlur_apply.simps)
    (simp add: wide_example_def GaussianBlur_apply_def FastBlur_nothing_to_do)

lemma tall_fallback:
  "FastBlur_apply convolve paste dm tall_example 0 1 0 am
     = Inr (paste tall_example (convolve tall_example (kernel_image AxisT (gauss_kernel 1))))"
  by (subst FastBlur_apply.simps)
    (simp add: tall_example_def GaussianBlur_apply_def FastBlur_nothing_to_do)

text \<open>
  C3 fails on the code. \<^verbatim>\<open>GaussianBlur::apply\<close> takes the standard deviations in
  the order width, height, frames, and the three fallback branches of
  \<^verbatim>\<open>FastBlur::apply\<close> pass theirs one place off. On an image with two frames and
  a frame blur of 1 the fallback convolves along x, with a kernel of 7 by 1 by 1
  taps, and leaves the frame axis alone; the width's blur goes to the y axis and
  the height's to the frame axis. \<open>convolve\<close>, \<open>paste\<close> and the default of
  \<open>addMargin\<close> are arbitrary.
\<close>

theorem fallback_blurs_another_axis:
  "FastBlur_apply convolve paste dm deep_example 0 0 1 am
     = Inr (paste deep_example (convolve deep_example (kernel_image AxisX (gauss_kernel 1)))) \<and>
   FastBlur_apply convolve paste dm wide_example 1 0 0 am
     = Inr (paste wide_example (convolve wide_example (kernel_image AxisY (gauss_kernel 1)))) \<and>
   FastBlur_apply convolve paste dm tall_example 0 1 0 am
     = Inr (paste tall_example (convolve tall_example (kernel_image AxisT (gauss_kernel 1)))) \<and>
   width (kernel_image AxisX (gauss_kernel 1)) = 7 \<and>
   frames (kernel_image AxisX (gauss_kernel 1)) = 1 \<and>
   height (kernel_image AxisY (gauss_kernel 1)) = 7 \<and>
   width (kernel_image AxisY (gauss_kernel 1)) = 1 \<and>
   frames (kernel_image AxisT (gauss_kernel 1)) = 7 \<and>
   height (kernel_image AxisT (gauss_kernel 1)) = 1"
  by (simp add: deep_fallback wide_fallback tall_fallback kernel_image_def len_kernel_1)

lemma fold_keeps_extents:
  assumes "\<And>a s. (width (f a s), height (f a s), frames (f a s), channels (f a s))
      = (width s, height s, frames s, channels s)"
  shows "(width (fold f as s), height (fold f as s), frames (fold f as s), channels (fold f as s))
      = (width s, height s, frames s, channels s)"
  using assms by (induction as arbitrary: s) simp_all

lemma add_margin_extents:
  "(width (add_margin im mx my mt), height (add_margin im mx my mt),
    frames (add_margin im mx my mt), channels (add_margin im mx my mt))
   = (width im + 2 * mx, height im + 2 * my, frames im + 2 * mt, channels im + 1)"
proof -
  let ?inner = "\<lambda>t y x bigger.
         fold (\<lambda>c b. put b (x + mx) (y + my) (t + mt) c (data im x y t c))
           [0..<channels im]
           (put bigger (x + mx) (y + my) (t + mt) (channels im) 1)"
  have a: "(width (?inner t y x s), height (?inner t y x s), frames (?inner t y x s),
      channels (?inner t y x s)) = (width s, height s, frames s, channels s)" for t y x s
    using fold_keeps_extents [of "\<lambda>c b. put b (x + mx) (y + my) (t + mt) c (data im x y t c)"
        "[0..<channels im]" "put s (x + mx) (y + my) (t + mt) (channels im) 1"]
    by simp
  have b: "(width (fold (?inner t y) xs s), height (fold (?inner t y) xs s),
      frames (fold (?inner t y) xs s), channels (fold (?inner t y) xs s))
      = (width s, height s, frames s, channels s)" for t y xs s
    by (rule fold_keeps_extents) (rule a)
  have c: "(width (fold (\<lambda>y. fold (?inner t y) xs) ys s),
      height (fold (\<lambda>y. fold (?inner t y) xs) ys s),
      frames (fold (\<lambda>y. fold (?inner t y) xs) ys s),
      channels (fold (\<lambda>y. fold (?inner t y) xs) ys s))
      = (width s, height s, frames s, channels s)" for t xs ys s
    by (rule fold_keeps_extents) (rule b)
  have d: "(width (fold (\<lambda>t. fold (\<lambda>y. fold (?inner t y) xs) ys) ts s),
      height (fold (\<lambda>t. fold (\<lambda>y. fold (?inner t y) xs) ys) ts s),
      frames (fold (\<lambda>t. fold (\<lambda>y. fold (?inner t y) xs) ys) ts s),
      channels (fold (\<lambda>t. fold (\<lambda>y. fold (?inner t y) xs) ys) ts s))
      = (width s, height s, frames s, channels s)" for xs ys ts s
    by (rule fold_keeps_extents) (rule c)
  show ?thesis
    unfolding add_margin_def by (simp only: d) simp
qed

lemma iir_line_short: "length xs < 3 * ts \<Longrightarrow> iir_line cs ts xs = Inl OutOfBounds"
  by (cases cs) (simp add: iir_line_def)

lemma sqrt_bounds: "192 \<le> sqrt 38976" "sqrt 38976 < 224"
proof -
  have "(192::real)\<^sup>2 \<le> 38976" by simp
  then show "192 \<le> sqrt 38976" by (rule real_le_rsqrt)
  have "(38976::real) < 224\<^sup>2" by simp
  then show "sqrt 38976 < 224" by (intro real_less_lsqrt) simp_all
qed

lemma tap_spacing_200: "nat (trunc_int (sqrt 38976 / 32 + 1)) = 7"
proof -
  have "7 \<le> sqrt 38976 / 32 + 1" "sqrt 38976 / 32 + 1 < 8"
    using sqrt_bounds by simp_all
  then have "\<lfloor>sqrt 38976 / 32 + 1\<rfloor> = 7" by linarith
  moreover have "0 \<le> sqrt 38976 / 32 + 1" by simp
  ultimately show ?thesis by (simp add: trunc_int_def)
qed

lemma coefficients_exist:
  "1 / 2 \<le> sigma \<Longrightarrow> \<exists>cs. calculateCoefficients sigma = Inr cs"
  by (simp add: calculateCoefficients_def Let_def)

lemma blurY_short_column:
  assumes "1 / 2 \<le> sigma" "height im < 3 * ts" "0 < width im" "0 < frames im" "0 < channels im"
  shows "FastBlur_blurY im sigma ts = Inl OutOfBounds"
proof -
  from coefficients_exist [OF assms(1)] obtain cs where cs: "calculateCoefficients sigma = Inr cs"
    by blast
  have len: "length (get_col im' x t c) = height im'" for im' :: "real image" and x t c
    by (simp add: get_col_def)
  have w: "[0..<width im] = 0 # [1..<width im]"
    using assms(3) by (simp add: upt_rec)
  have f: "[0..<frames im] = 0 # [1..<frames im]"
    using assms(4) by (simp add: upt_rec)
  have c: "[0..<channels im] = 0 # [1..<channels im]"
    using assms(5) by (simp add: upt_rec)
  have "iir_line cs ts (get_col im 0 0 0) = Inl OutOfBounds"
    using assms(2) by (intro iir_line_short) (simp add: len)
  moreover from assms(1) have "sigma \<noteq> 0" by auto
  ultimately show ?thesis
    unfolding FastBlur_blurY_def by (simp add: cs w f c)
qed

lemma flat_ext:
  "width flat_example = 16" "height flat_example = 16"
  "frames flat_example = 1" "channels flat_example = 1"
  by (simp_all add: flat_example_def)

lemma margin_of_flat_ext:
  "width (add_margin flat_example 200 0 0) = 416"
  "height (add_margin flat_example 200 0 0) = 16"
  "frames (add_margin flat_example 200 0 0) = 1"
  "channels (add_margin flat_example 200 0 0) = 2"
  using add_margin_extents [of flat_example 200 0 0] by (simp_all add: flat_ext)

lemma inner_call_fails:
  "FastBlur_apply convolve paste dm (add_margin flat_example 200 0 0) 0 200 0 False
     = Inl OutOfBounds"
proof -
  let ?big = "add_margin flat_example 200 0 0"
  have s: "1 / 2 \<le> sqrt 38976 / 7"
    using sqrt_bounds(1) by simp
  have "FastBlur_blurY ?big (sqrt 38976 / 7) 7 = Inl OutOfBounds"
    by (rule blurY_short_column [OF s]) (simp_all add: margin_of_flat_ext)
  then have "iir_axis FastBlur_blurY ?big 200 = Inl OutOfBounds"
    by (simp add: iir_axis_def Let_def tap_spacing_200)
  moreover have "iir_axis FastBlur_blurX ?big 0 = Inr ?big"
    by (simp add: iir_axis_def)
  ultimately show ?thesis
    by (subst FastBlur_apply.simps) (simp add: margin_of_flat_ext)
qed

lemma trunc_200: "nat (trunc_int 200) = 200" "nat (trunc_int 0) = 0"
  by (simp_all add: trunc_int_def)

text \<open>
  C4 fails on the code. \<^verbatim>\<open>FastBlur::apply(im, 200, 0, 0, true)\<close> on a constant
  image of 16 by 16 samples takes the margin branch (16/200 < 8) and pads the
  image to 416 by 16. The recursive call passes
  \<^verbatim>\<open>(filterFrames, filterWidth, filterHeight)\<close> where the function takes
  \<^verbatim>\<open>(filterWidth, filterHeight, filterFrames)\<close>, so the blur of 200 lands on the y
  axis, which has 16 rows and no margin. It is split into a sparse pass of tap
  spacing 7, and \<^verbatim>\<open>blurY\<close> with that spacing reads and writes the rows up to
  \<open>3 * 7 - 1 = 20\<close>: out of range. \<open>convolve\<close>, \<open>paste\<close> and the default of
  \<open>addMargin\<close> are arbitrary.
\<close>

theorem margin_blur_out_of_bounds:
  "FastBlur_apply convolve paste dm flat_example 200 0 0 True = Inl OutOfBounds"
  by (subst FastBlur_apply.simps) (simp add: flat_ext trunc_200 inner_call_fails)

end
